theory Spec2Isabelle
  imports Main
begin

section \<open>Values of the program\<close>

text \<open>
  The program is one Express application (\<^verbatim>\<open>server.js\<close>): two Sequelize models
  on an SQLite file, a bootstrap that runs once at start, two guards and eight routes.
  Every rejected promise and every thrown exception of the source is a value
  \<open>Inl e\<close> of the model; \<open>message e\<close> is the JavaScript \<^verbatim>\<open>error.message\<close>.
\<close>

datatype error_name =
    SequelizeConnectionError
  | SequelizeUniqueConstraintError
  | SequelizeForeignKeyConstraintError
  | SequelizeValidationError
  | TypeError
  | PlainError

datatype js_error = JsError (err_name: error_name) (message: string)

text \<open>The two models, lines 18 to 63. Both tables have an auto-incremented integer key.\<close>

record role =
  role_id :: int
  role_name :: string

record user =
  user_id :: int
  login :: string
  password :: string
  roleId :: int

text \<open>The object stored in \<^verbatim>\<open>req.session.user\<close> by the login route, lines 184 to 188.\<close>

record session_user =
  su_id :: int
  su_login :: string
  su_role :: string

text \<open>
  \<^verbatim>\<open>req.session\<close>: absent once it has been destroyed, otherwise an object whose
  \<^verbatim>\<open>user\<close> property may be undefined.
\<close>

datatype req_session = NoSession | Session (session_user: "session_user option")

type_synonym sid = string

datatype log_entry =
    Log string
  | LogError js_error
  | LogErrorMsg string js_error

text \<open>
  The state outside a request: the two tables, the session store (from session id to the
  stored \<^verbatim>\<open>user\<close> property), what the console has printed, and \<open>faults\<close>: for each
  coming call of the persistence layer, whether it is rejected (and with which error) for a
  reason outside the program, such as a lost connection. An exhausted list rejects nothing.
\<close>

record world =
  Roles :: "role list"
  Users :: "user list"
  sessions :: "sid \<rightharpoonup> session_user"
  faults :: "js_error option list"
  console :: "log_entry list"

text \<open>
  The form fields of a request. Line 102 parses the body with \<^verbatim>\<open>extended: true\<close>, so a
  field of \<^verbatim>\<open>req.body\<close> is a string, an array or an object, and line 158 (and 180) reads
  \<^verbatim>\<open>login\<close> and \<^verbatim>\<open>password\<close> from it unchecked: a field the form does not have is
  undefined, here \<open>None\<close>.
\<close>

datatype form_value =
    Str string
  | Arr "form_value list"
  | Obj "(string \<times> form_value) list"

type_synonym field = "form_value option"

record request =
  cookie :: "sid option"
  body_login :: field
  body_password :: field

text \<open>
  \<^verbatim>\<open>bcrypt\<close> is a library and a parameter of the model: \<open>bcrypt_hash B data rounds salt\<close> is
  \<^verbatim>\<open>bcrypt.hash(data, rounds)\<close> when the library draws \<open>salt\<close>, and
  \<open>bcrypt_compare B data encrypted\<close> is \<^verbatim>\<open>bcrypt.compare(data, encrypted)\<close>, both for
  data that is a string. Data that is undefined, an array or an object makes either call
  reject; \<open>hash_rejects\<close> and \<open>compare_rejects\<close> are the errors.
\<close>

record bcrypt =
  bcrypt_hash :: "string \<Rightarrow> nat \<Rightarrow> string \<Rightarrow> string"
  bcrypt_compare :: "string \<Rightarrow> string \<Rightarrow> bool"
  hash_rejects :: "field \<Rightarrow> js_error"
  compare_rejects :: "field \<Rightarrow> js_error"

definition bcrypt_hash_data :: "bcrypt \<Rightarrow> field \<Rightarrow> nat \<Rightarrow> string \<Rightarrow> js_error + string" where
  \<comment> \<open>\<^verbatim>\<open>bcrypt.hash\<close> on a form field\<close>
  "bcrypt_hash_data B data rounds salt =
     (case data of
        None \<Rightarrow> Inl (hash_rejects B data)
      | Some v \<Rightarrow>
          (case v of
             Str d \<Rightarrow> Inr (bcrypt_hash B d rounds salt)
           | Arr xs \<Rightarrow> Inl (hash_rejects B data)
           | Obj kvs \<Rightarrow> Inl (hash_rejects B data)))"

definition bcrypt_compare_data :: "bcrypt \<Rightarrow> field \<Rightarrow> string \<Rightarrow> js_error + bool" where
  \<comment> \<open>\<^verbatim>\<open>bcrypt.compare\<close> of a form field with a stored hash\<close>
  "bcrypt_compare_data B data encrypted =
     (case data of
        None \<Rightarrow> Inl (compare_rejects B data)
      | Some v \<Rightarrow>
          (case v of
             Str d \<Rightarrow> Inr (bcrypt_compare B d encrypted)
           | Arr xs \<Rightarrow> Inl (compare_rejects B data)
           | Obj kvs \<Rightarrow> Inl (compare_rejects B data)))"

text \<open>
  Sequelize is a library too. What it does with a \<^verbatim>\<open>login\<close> that is not a string is its
  own affair and a parameter: \<open>where_other S v\<close> is what \<^verbatim>\<open>where: { login: v }\<close> becomes
  for an array or an object \<open>v\<close>, an error thrown while the query is built or the condition
  the rows are selected by, and \<open>invalid_login S f\<close> is the validation error with which
  \<^verbatim>\<open>User.create\<close> rejects a login that is undefined (\<^verbatim>\<open>allowNull: false\<close>, line 46), an
  array or an object (the column is a \<^verbatim>\<open>STRING\<close>, line 45).
\<close>

record sequelize =
  where_other :: "form_value \<Rightarrow> js_error + (string \<Rightarrow> bool)"
  invalid_login :: "field \<Rightarrow> js_error"

datatype response = Redirect string | Send nat string | Render string

fun status :: "response \<Rightarrow> nat" where
  "status (Redirect url) = 302"
| "status (Send code text) = code"
| "status (Render view) = 200"

subsection \<open>String literals of the source\<close>

text \<open>
  The messages of the source are Russian. They are given here as their UTF-8 bytes, each
  with a transliteration.
\<close>

definition msg_forbidden :: string where
  \<comment> \<open>Dostup zapreshchen (access denied), line 132\<close>
  "msg_forbidden =
    [CHR 0xD0, CHR 0x94, CHR 0xD0, CHR 0xBE, CHR 0xD1, CHR 0x81, CHR 0xD1, CHR 0x82,
     CHR 0xD1, CHR 0x83, CHR 0xD0, CHR 0xBF, CHR 0x20, CHR 0xD0, CHR 0xB7, CHR 0xD0,
     CHR 0xB0, CHR 0xD0, CHR 0xBF, CHR 0xD1, CHR 0x80, CHR 0xD0, CHR 0xB5, CHR 0xD1,
     CHR 0x89, CHR 0xD0, CHR 0xB5, CHR 0xD0, CHR 0xBD]"

definition msg_role_not_found :: string where
  \<comment> \<open>Rol' ne naidena (role not found), line 162\<close>
  "msg_role_not_found =
    [CHR 0xD0, CHR 0xA0, CHR 0xD0, CHR 0xBE, CHR 0xD0, CHR 0xBB, CHR 0xD1, CHR 0x8C,
     CHR 0x20, CHR 0xD0, CHR 0xBD, CHR 0xD0, CHR 0xB5, CHR 0x20, CHR 0xD0, CHR 0xBD,
     CHR 0xD0, CHR 0xB0, CHR 0xD0, CHR 0xB9, CHR 0xD0, CHR 0xB4, CHR 0xD0, CHR 0xB5,
     CHR 0xD0, CHR 0xBD, CHR 0xD0, CHR 0xB0]"

definition msg_register_error :: string where
  \<comment> \<open>Oshibka registratsii: (registration error), lines 168 and 169\<close>
  "msg_register_error =
    [CHR 0xD0, CHR 0x9E, CHR 0xD1, CHR 0x88, CHR 0xD0, CHR 0xB8, CHR 0xD0, CHR 0xB1,
     CHR 0xD0, CHR 0xBA, CHR 0xD0, CHR 0xB0, CHR 0x20, CHR 0xD1, CHR 0x80, CHR 0xD0,
     CHR 0xB5, CHR 0xD0, CHR 0xB3, CHR 0xD0, CHR 0xB8, CHR 0xD1, CHR 0x81, CHR 0xD1,
     CHR 0x82, CHR 0xD1, CHR 0x80, CHR 0xD0, CHR 0xB0, CHR 0xD1, CHR 0x86, CHR 0xD0,
     CHR 0xB8, CHR 0xD0, CHR 0xB8, CHR 0x3A]"

definition msg_invalid_login :: string where
  \<comment> \<open>Nevernyi login ili parol' (invalid login or password), line 191\<close>
  "msg_invalid_login =
    [CHR 0xD0, CHR 0x9D, CHR 0xD0, CHR 0xB5, CHR 0xD0, CHR 0xB2, CHR 0xD0, CHR 0xB5,
     CHR 0xD1, CHR 0x80, CHR 0xD0, CHR 0xBD, CHR 0xD1, CHR 0x8B, CHR 0xD0, CHR 0xB9,
     CHR 0x20, CHR 0xD0, CHR 0xBB, CHR 0xD0, CHR 0xBE, CHR 0xD0, CHR 0xB3, CHR 0xD0,
     CHR 0xB8, CHR 0xD0, CHR 0xBD, CHR 0x20, CHR 0xD0, CHR 0xB8, CHR 0xD0, CHR 0xBB,
     CHR 0xD0, CHR 0xB8, CHR 0x20, CHR 0xD0, CHR 0xBF, CHR 0xD0, CHR 0xB0, CHR 0xD1,
     CHR 0x80, CHR 0xD0, CHR 0xBE, CHR 0xD0, CHR 0xBB, CHR 0xD1, CHR 0x8C]"

definition msg_login_error :: string where
  \<comment> \<open>Oshibka vkhoda: (login error), line 194\<close>
  "msg_login_error =
    [CHR 0xD0, CHR 0x9E, CHR 0xD1, CHR 0x88, CHR 0xD0, CHR 0xB8, CHR 0xD0, CHR 0xB1,
     CHR 0xD0, CHR 0xBA, CHR 0xD0, CHR 0xB0, CHR 0x20, CHR 0xD0, CHR 0xB2, CHR 0xD1,
     CHR 0x85, CHR 0xD0, CHR 0xBE, CHR 0xD0, CHR 0xB4, CHR 0xD0, CHR 0xB0, CHR 0x3A]"

definition msg_server_error :: string where
  \<comment> \<open>Oshibka servera: (server error), line 195\<close>
  "msg_server_error =
    [CHR 0xD0, CHR 0x9E, CHR 0xD1, CHR 0x88, CHR 0xD0, CHR 0xB8, CHR 0xD0, CHR 0xB1,
     CHR 0xD0, CHR 0xBA, CHR 0xD0, CHR 0xB0, CHR 0x20, CHR 0xD1, CHR 0x81, CHR 0xD0,
     CHR 0xB5, CHR 0xD1, CHR 0x80, CHR 0xD0, CHR 0xB2, CHR 0xD0, CHR 0xB5, CHR 0xD1,
     CHR 0x80, CHR 0xD0, CHR 0xB0, CHR 0x3A]"

definition msg_welcome :: string where
  \<comment> \<open>Dobro pozhalovat' (welcome), lines 202 and 208\<close>
  "msg_welcome =
    [CHR 0xD0, CHR 0x94, CHR 0xD0, CHR 0xBE, CHR 0xD0, CHR 0xB1, CHR 0xD1, CHR 0x80,
     CHR 0xD0, CHR 0xBE, CHR 0x20, CHR 0xD0, CHR 0xBF, CHR 0xD0, CHR 0xBE, CHR 0xD0,
     CHR 0xB6, CHR 0xD0, CHR 0xB0, CHR 0xD0, CHR 0xBB, CHR 0xD0, CHR 0xBE, CHR 0xD0,
     CHR 0xB2, CHR 0xD0, CHR 0xB0, CHR 0xD1, CHR 0x82, CHR 0xD1, CHR 0x8C]"

definition msg_exit :: string where
  \<comment> \<open>Vyiti (log out), line 202\<close>
  "msg_exit =
    [CHR 0xD0, CHR 0x92, CHR 0xD1, CHR 0x8B, CHR 0xD0, CHR 0xB9, CHR 0xD1, CHR 0x82,
     CHR 0xD0, CHR 0xB8]"

definition msg_admin_only :: string where
  \<comment> \<open>v admin-panel'! Tol'ko dlya administratorov. (to the admin panel, administrators only), line 208\<close>
  "msg_admin_only =
    [CHR 0x20, CHR 0xD0, CHR 0xB2, CHR 0x20, CHR 0xD0, CHR 0xB0, CHR 0xD0, CHR 0xB4,
     CHR 0xD0, CHR 0xBC, CHR 0xD0, CHR 0xB8, CHR 0xD0, CHR 0xBD, CHR 0x2D, CHR 0xD0,
     CHR 0xBF, CHR 0xD0, CHR 0xB0, CHR 0xD0, CHR 0xBD, CHR 0xD0, CHR 0xB5, CHR 0xD0,
     CHR 0xBB, CHR 0xD1, CHR 0x8C, CHR 0x21, CHR 0x20, CHR 0xD0, CHR 0xA2, CHR 0xD0,
     CHR 0xBE, CHR 0xD0, CHR 0xBB, CHR 0xD1, CHR 0x8C, CHR 0xD0, CHR 0xBA, CHR 0xD0,
     CHR 0xBE, CHR 0x20, CHR 0xD0, CHR 0xB4, CHR 0xD0, CHR 0xBB, CHR 0xD1, CHR 0x8F,
     CHR 0x20, CHR 0xD0, CHR 0xB0, CHR 0xD0, CHR 0xB4, CHR 0xD0, CHR 0xBC, CHR 0xD0,
     CHR 0xB8, CHR 0xD0, CHR 0xBD, CHR 0xD0, CHR 0xB8, CHR 0xD1, CHR 0x81, CHR 0xD1,
     CHR 0x82, CHR 0xD1, CHR 0x80, CHR 0xD0, CHR 0xB0, CHR 0xD1, CHR 0x82, CHR 0xD0,
     CHR 0xBE, CHR 0xD1, CHR 0x80, CHR 0xD0, CHR 0xBE, CHR 0xD0, CHR 0xB2, CHR 0x2E]"

definition msg_logout_error :: string where
  \<comment> \<open>Oshibka pri vykhode: (error on logout), line 214\<close>
  "msg_logout_error =
    [CHR 0xD0, CHR 0x9E, CHR 0xD1, CHR 0x88, CHR 0xD0, CHR 0xB8, CHR 0xD0, CHR 0xB1,
     CHR 0xD0, CHR 0xBA, CHR 0xD0, CHR 0xB0, CHR 0x20, CHR 0xD0, CHR 0xBF, CHR 0xD1,
     CHR 0x80, CHR 0xD0, CHR 0xB8, CHR 0x20, CHR 0xD0, CHR 0xB2, CHR 0xD1, CHR 0x8B,
     CHR 0xD1, CHR 0x85, CHR 0xD0, CHR 0xBE, CHR 0xD0, CHR 0xB4, CHR 0xD0, CHR 0xB5,
     CHR 0x3A]"

definition msg_db_synced :: string where
  \<comment> \<open>Baza dannykh sinkhronizirovana (database synchronised), line 73\<close>
  "msg_db_synced =
    [CHR 0xD0, CHR 0x91, CHR 0xD0, CHR 0xB0, CHR 0xD0, CHR 0xB7, CHR 0xD0, CHR 0xB0,
     CHR 0x20, CHR 0xD0, CHR 0xB4, CHR 0xD0, CHR 0xB0, CHR 0xD0, CHR 0xBD, CHR 0xD0,
     CHR 0xBD, CHR 0xD1, CHR 0x8B, CHR 0xD1, CHR 0x85, CHR 0x20, CHR 0xD1, CHR 0x81,
     CHR 0xD0, CHR 0xB8, CHR 0xD0, CHR 0xBD, CHR 0xD1, CHR 0x85, CHR 0xD1, CHR 0x80,
     CHR 0xD0, CHR 0xBE, CHR 0xD0, CHR 0xBD, CHR 0xD0, CHR 0xB8, CHR 0xD0, CHR 0xB7,
     CHR 0xD0, CHR 0xB8, CHR 0xD1, CHR 0x80, CHR 0xD0, CHR 0xBE, CHR 0xD0, CHR 0xB2,
     CHR 0xD0, CHR 0xB0, CHR 0xD0, CHR 0xBD, CHR 0xD0, CHR 0xB0]"

definition msg_admin_created :: string where
  \<comment> \<open>Administrator sozdan (administrator created), line 96\<close>
  "msg_admin_created =
    [CHR 0xD0, CHR 0x90, CHR 0xD0, CHR 0xB4, CHR 0xD0, CHR 0xBC, CHR 0xD0, CHR 0xB8,
     CHR 0xD0, CHR 0xBD, CHR 0xD0, CHR 0xB8, CHR 0xD1, CHR 0x81, CHR 0xD1, CHR 0x82,
     CHR 0xD1, CHR 0x80, CHR 0xD0, CHR 0xB0, CHR 0xD1, CHR 0x82, CHR 0xD0, CHR 0xBE,
     CHR 0xD1, CHR 0x80, CHR 0x20, CHR 0xD1, CHR 0x81, CHR 0xD0, CHR 0xBE, CHR 0xD0,
     CHR 0xB7, CHR 0xD0, CHR 0xB4, CHR 0xD0, CHR 0xB0, CHR 0xD0, CHR 0xBD]"
definition logout_link :: string where
  \<comment> \<open>the anchor of line 202; \<open>CHR 0x22\<close> is the double quote\<close>
  "logout_link =
     ''<a href='' @ [CHR 0x22] @ ''/logout'' @ [CHR 0x22] @ ''>'' @ msg_exit @ ''</a>''"

definition greeting :: "string \<Rightarrow> string" where
  \<comment> \<open>the template literal of line 202\<close>
  "greeting name = msg_welcome @ '', '' @ name @ ''! '' @ logout_link"

definition admin_greeting :: string where
  \<comment> \<open>the literal of line 208\<close>
  "admin_greeting = msg_welcome @ msg_admin_only"

definition unique_violation :: js_error where
  \<comment> \<open>what Sequelize rejects with when a unique index refuses an insert; the text is the
      library's, and nothing below depends on it\<close>
  "unique_violation = JsError SequelizeUniqueConstraintError ''Validation error''"

definition foreign_key_violation :: js_error where
  \<comment> \<open>what Sequelize rejects with when SQLite refuses a dangling reference\<close>
  "foreign_key_violation =
     JsError SequelizeForeignKeyConstraintError ''SQLITE_CONSTRAINT: FOREIGN KEY constraint failed''"

definition null_Role :: js_error where
  \<comment> \<open>reading \<^verbatim>\<open>.name\<close> of a \<^verbatim>\<open>user.Role\<close> that is null\<close>
  "null_Role = JsError TypeError ''Cannot read properties of null (reading 'name')''"

definition undefined_user :: js_error where
  \<comment> \<open>reading \<^verbatim>\<open>.login\<close> of a \<^verbatim>\<open>req.session.user\<close> that is undefined\<close>
  "undefined_user = JsError TypeError ''Cannot read properties of undefined (reading 'login')''"

definition where_undefined :: js_error where
  \<comment> \<open>what Sequelize throws for \<^verbatim>\<open>where: { login: undefined }\<close>; \<open>CHR 0x22\<close> is the double quote\<close>
  "where_undefined =
     JsError PlainError
       (''WHERE parameter '' @ [CHR 0x22] @ ''login'' @ [CHR 0x22] @ '' has invalid '' @
        [CHR 0x22] @ ''undefined'' @ [CHR 0x22] @ '' value'')"

section \<open>Persistence layer\<close>

text \<open>
  Each operation is one call to the store. It is rejected when the head of \<open>faults\<close>
  says so, and runs on the tables otherwise.
\<close>

definition query :: "(world \<Rightarrow> (js_error + 'a) \<times> world) \<Rightarrow> world \<Rightarrow> (js_error + 'a) \<times> world" where
  "query f w =
     (case faults w of
        [] \<Rightarrow> f w
      | None # fs \<Rightarrow> f (w\<lparr>faults := fs\<rparr>)
      | Some e # fs \<Rightarrow> (Inl e, w\<lparr>faults := fs\<rparr>))"

definition next_id :: "int list \<Rightarrow> int" where
  \<comment> \<open>\<^verbatim>\<open>autoIncrement: true\<close>: one more than the largest key, 1 in an empty table
      (the program deletes no row, so this is the counter SQLite keeps)\<close>
  "next_id ids = fold max ids 0 + 1"

definition sequelize_sync :: "bool \<Rightarrow> world \<Rightarrow> (js_error + unit) \<times> world" where
  \<comment> \<open>\<^verbatim>\<open>sequelize.sync({ force })\<close>: creates the missing tables; drops them first when forced\<close>
  "sequelize_sync force =
     query (\<lambda>w. (Inr (), if force then w\<lparr>Roles := [], Users := []\<rparr> else w))"

definition Role_findOne :: "string \<Rightarrow> world \<Rightarrow> (js_error + role option) \<times> world" where
  "Role_findOne nm = query (\<lambda>w. (Inr (find (\<lambda>r. role_name r = nm) (Roles w)), w))"

definition Role_findOrCreate :: "string \<Rightarrow> world \<Rightarrow> (js_error + role \<times> bool) \<times> world" where
  \<comment> \<open>\<^verbatim>\<open>Role.findOrCreate({ where: { name }, defaults: { name } })\<close>: the row and whether it is new\<close>
  "Role_findOrCreate nm =
     query (\<lambda>w.
       case find (\<lambda>r. role_name r = nm) (Roles w) of
         Some r \<Rightarrow> (Inr (r, False), w)
       | None \<Rightarrow>
           (let r = \<lparr>role_id = next_id (map role_id (Roles w)), role_name = nm\<rparr>
            in (Inr (r, True), w\<lparr>Roles := Roles w @ [r]\<rparr>)))"

definition User_count :: "world \<Rightarrow> (js_error + nat) \<times> world" where
  "User_count = query (\<lambda>w. (Inr (length (Users w)), w))"

definition User_create :: "string \<Rightarrow> string \<Rightarrow> int \<Rightarrow> world \<Rightarrow> (js_error + user) \<times> world" where
  \<comment> \<open>\<^verbatim>\<open>User.create\<close> of a row whose login is a string: the insert fails on the unique index of \<^verbatim>\<open>login\<close> (line 47) and on the reference
      to \<^verbatim>\<open>Role.id\<close> (lines 56 to 59); a refused insert changes nothing\<close>
  "User_create lg pw rid =
     query (\<lambda>w.
       if lg \<in> set (map login (Users w)) then (Inl unique_violation, w)
       else if rid \<notin> set (map role_id (Roles w)) then (Inl foreign_key_violation, w)
       else
         (let u = \<lparr>user_id = next_id (map user_id (Users w)), login = lg,
                   password = pw, roleId = rid\<rparr>
          in (Inr u, w\<lparr>Users := Users w @ [u]\<rparr>)))"

definition include_Role :: "world \<Rightarrow> user \<Rightarrow> user \<times> role option" where
  \<comment> \<open>\<^verbatim>\<open>include: Role\<close>: the user with the row its \<^verbatim>\<open>roleId\<close> refers to, null when there is none\<close>
  "include_Role w u = (u, find (\<lambda>r. role_id r = roleId u) (Roles w))"

definition where_login :: "sequelize \<Rightarrow> field \<Rightarrow> js_error + (string \<Rightarrow> bool)" where
  \<comment> \<open>\<^verbatim>\<open>where: { login }\<close>: the condition on the column, or the error thrown before any call\<close>
  "where_login S f =
     (case f of
        None \<Rightarrow> Inl where_undefined
      | Some v \<Rightarrow>
          (case v of
             Str lg \<Rightarrow> Inr (\<lambda>x. x = lg)
           | Arr xs \<Rightarrow> where_other S v
           | Obj kvs \<Rightarrow> where_other S v))"

definition User_findOne ::
  "(string \<Rightarrow> bool) \<Rightarrow> world \<Rightarrow> (js_error + (user \<times> role option) option) \<times> world" where
  \<comment> \<open>\<^verbatim>\<open>User.findOne({ where: { login }, include: Role })\<close>, once the condition is built\<close>
  "User_findOne cond =
     query (\<lambda>w. (Inr (map_option (include_Role w) (find (\<lambda>u. cond (login u)) (Users w))), w))"

definition validate_login :: "sequelize \<Rightarrow> field \<Rightarrow> js_error + string" where
  \<comment> \<open>the validation \<^verbatim>\<open>User.create\<close> runs on \<^verbatim>\<open>login\<close> before it inserts\<close>
  "validate_login S f =
     (case f of
        None \<Rightarrow> Inl (invalid_login S f)
      | Some v \<Rightarrow>
          (case v of
             Str lg \<Rightarrow> Inr lg
           | Arr xs \<Rightarrow> Inl (invalid_login S f)
           | Obj kvs \<Rightarrow> Inl (invalid_login S f)))"

definition User_findByPk :: "int \<Rightarrow> world \<Rightarrow> (js_error + (user \<times> role option) option) \<times> world" where
  \<comment> \<open>\<^verbatim>\<open>User.findByPk(id, { include: Role })\<close>\<close>
  "User_findByPk k =
     query (\<lambda>w. (Inr (map_option (include_Role w) (find (\<lambda>u. user_id u = k) (Users w))), w))"

definition console_log :: "log_entry \<Rightarrow> world \<Rightarrow> world" where
  "console_log l w = w\<lparr>console := console w @ [l]\<rparr>"

section \<open>Bootstrap\<close>

text \<open>Lines 70 to 99. \<open>salt\<close> is the salt \<^verbatim>\<open>bcrypt.hash\<close> draws for the default password.\<close>

definition bootstrap_then :: "bcrypt \<Rightarrow> string \<Rightarrow> world \<Rightarrow> (js_error + unit) \<times> world" where
  "bootstrap_then B salt w0 =
     (case Role_findOrCreate ''user'' (console_log (Log msg_db_synced) w0) of
        (Inl e, w1) \<Rightarrow> (Inl e, w1)
      | (Inr userRole, w1) \<Rightarrow>
     (case Role_findOrCreate ''admin'' w1 of
        (Inl e, w2) \<Rightarrow> (Inl e, w2)
      | (Inr adminRole, w2) \<Rightarrow>
     (case User_count w2 of
        (Inl e, w3) \<Rightarrow> (Inl e, w3)
      | (Inr usersCount, w3) \<Rightarrow>
          if usersCount = 0 then
            (let hashedPassword = bcrypt_hash B ''admin'' 10 salt in
             case User_create ''admin'' hashedPassword (role_id (fst adminRole)) w3 of
               (Inl e, w4) \<Rightarrow> (Inl e, w4)
             | (Inr created, w4) \<Rightarrow> (Inr (), console_log (Log msg_admin_created) w4))
          else (Inr (), w3))))"

definition bootstrap :: "bcrypt \<Rightarrow> string \<Rightarrow> world \<Rightarrow> world" where
  "bootstrap B salt w =
     (case sequelize_sync False w of
        (Inl err, w1) \<Rightarrow> console_log (LogError err) w1
      | (Inr synced, w1) \<Rightarrow>
          (case bootstrap_then B salt w1 of
             (Inl err, w2) \<Rightarrow> console_log (LogError err) w2
           | (Inr done, w2) \<Rightarrow> w2))"

section \<open>Session middleware\<close>

text \<open>
  Lines 107 to 113: \<^verbatim>\<open>express-session\<close> with its default in-memory store,
  \<^verbatim>\<open>resave: false\<close> and \<^verbatim>\<open>saveUninitialized: false\<close>. A request whose cookie names a
  stored session gets that session; any other request gets a new, empty session under a
  newly drawn id \<open>new_sid\<close>. When the response ends, the session is written to the store
  only if the handler changed it; a destroyed session is not written. The only change the
  program makes to a session is to set its \<^verbatim>\<open>user\<close>, so the store holds that property.
\<close>

type_synonym outcome = "(js_error + response) \<times> req_session \<times> world"

definition session_load :: "sid \<Rightarrow> request \<Rightarrow> world \<Rightarrow> sid \<times> session_user option" where
  "session_load new_sid rq w =
     (case cookie rq of
        None \<Rightarrow> (new_sid, None)
      | Some c \<Rightarrow>
          (case sessions w c of
             None \<Rightarrow> (new_sid, None)
           | Some u \<Rightarrow> (c, Some u)))"

definition session_save :: "sid \<Rightarrow> session_user option \<Rightarrow> req_session \<Rightarrow> world \<Rightarrow> world" where
  "session_save sessionID loaded s w =
     (case s of
        NoSession \<Rightarrow> w
      | Session None \<Rightarrow> w
      | Session (Some u) \<Rightarrow>
          if loaded = Some u then w else w\<lparr>sessions := (sessions w)(sessionID \<mapsto> u)\<rparr>)"

definition with_session ::
  "sid \<Rightarrow> request \<Rightarrow> (sid \<Rightarrow> session_user option \<Rightarrow> world \<Rightarrow> outcome) \<Rightarrow> world
     \<Rightarrow> (js_error + response) \<times> world" where
  \<comment> \<open>an exception that leaves the handler ends no response, so nothing is saved\<close>
  "with_session new_sid rq handler w =
     (case session_load new_sid rq w of
        (sessionID, loaded) \<Rightarrow>
          (case handler sessionID loaded w of
             (Inl e, s, w1) \<Rightarrow> (Inl e, w1)
           | (Inr res, s, w1) \<Rightarrow> (Inr res, session_save sessionID loaded s w1)))"

type_synonym store_destroy = "sid \<Rightarrow> (sid \<rightharpoonup> session_user) \<Rightarrow> js_error option \<times> (sid \<rightharpoonup> session_user)"

definition MemoryStore_destroy :: store_destroy where
  \<comment> \<open>the store the source configures: it deletes the entry and reports no error\<close>
  "MemoryStore_destroy k ss = (None, ss(k := None))"

section \<open>Guards\<close>

text \<open>
  Lines 116 to 138. \<open>su\<close> is \<^verbatim>\<open>req.session.user\<close> and \<open>next\<close> the rest of the chain.
\<close>

definition isAuthenticated :: "session_user option \<Rightarrow> (world \<Rightarrow> outcome) \<Rightarrow> world \<Rightarrow> outcome" where
  "isAuthenticated su next w =
     (case su of
        Some u \<Rightarrow> next w
      | None \<Rightarrow> (Inr (Redirect ''/login''), Session su, w))"

definition hasRole :: "string \<Rightarrow> session_user option \<Rightarrow> (world \<Rightarrow> outcome) \<Rightarrow> world \<Rightarrow> outcome" where
  \<comment> \<open>the guard has no \<^verbatim>\<open>try\<close>: a rejected query, and a \<^verbatim>\<open>user.Role\<close> that is null, leave it\<close>
  "hasRole roleName su next w =
     (case su of
        Some u \<Rightarrow>
          (case User_findByPk (su_id u) w of
             (Inl e, w1) \<Rightarrow> (Inl e, Session su, w1)
           | (Inr None, w1) \<Rightarrow> (Inr (Send 403 msg_forbidden), Session su, w1)
           | (Inr (Some (usr, None)), w1) \<Rightarrow> (Inl null_Role, Session su, w1)
           | (Inr (Some (usr, Some rl)), w1) \<Rightarrow>
               if role_name rl = roleName then next w1
               else (Inr (Send 403 msg_forbidden), Session su, w1))
      | None \<Rightarrow> (Inr (Redirect ''/login''), Session su, w))"

section \<open>Routes\<close>

text \<open>Lines 143 to 217, first the handlers, then each route behind the session middleware.\<close>

definition root_handler :: "session_user option \<Rightarrow> world \<Rightarrow> outcome" where
  "root_handler su w =
     (case su of
        Some u \<Rightarrow> (Inr (Redirect ''/profile''), Session su, w)
      | None \<Rightarrow> (Inr (Redirect ''/login''), Session su, w))"

definition register_catch :: "js_error \<Rightarrow> session_user option \<Rightarrow> world \<Rightarrow> outcome" where
  "register_catch error su w =
     (Inr (Send 400 (msg_register_error @ '' '' @ message error)), Session su,
      console_log (LogErrorMsg msg_register_error error) w)"

definition register_handler ::
  "sequelize \<Rightarrow> bcrypt \<Rightarrow> string \<Rightarrow> request \<Rightarrow> session_user option \<Rightarrow> world \<Rightarrow> outcome" where
  "register_handler S B salt rq su w =
     (case Role_findOne ''user'' w of
        (Inl error, w1) \<Rightarrow> register_catch error su w1
      | (Inr None, w1) \<Rightarrow> (Inr (Send 400 msg_role_not_found), Session su, w1)
      | (Inr (Some rl), w1) \<Rightarrow>
          (case bcrypt_hash_data B (body_password rq) 10 salt of
             Inl error \<Rightarrow> register_catch error su w1
           | Inr hashedPassword \<Rightarrow>
               (case validate_login S (body_login rq) of
                  Inl error \<Rightarrow> register_catch error su w1
                | Inr lg \<Rightarrow>
                    (case User_create lg hashedPassword (role_id rl) w1 of
                       (Inl error, w2) \<Rightarrow> register_catch error su w2
                     | (Inr created, w2) \<Rightarrow> (Inr (Redirect ''/login''), Session su, w2)))))"

definition login_catch :: "js_error \<Rightarrow> session_user option \<Rightarrow> world \<Rightarrow> outcome" where
  "login_catch error su w =
     (Inr (Send 500 (msg_server_error @ '' '' @ message error)), Session su,
      console_log (LogErrorMsg msg_login_error error) w)"

definition login_handler ::
  "sequelize \<Rightarrow> bcrypt \<Rightarrow> request \<Rightarrow> session_user option \<Rightarrow> world \<Rightarrow> outcome" where
  \<comment> \<open>\<^verbatim>\<open>user && (await bcrypt.compare(...))\<close>: the comparison runs only when a user is found;
      whatever is thrown inside the \<^verbatim>\<open>try\<close> reaches the \<^verbatim>\<open>catch\<close> of line 193\<close>
  "login_handler S B rq su w =
     (case where_login S (body_login rq) of
        Inl error \<Rightarrow> login_catch error su w
      | Inr cond \<Rightarrow>
     (case User_findOne cond w of
        (Inl error, w1) \<Rightarrow> login_catch error su w1
      | (Inr None, w1) \<Rightarrow> (Inr (Send 401 msg_invalid_login), Session su, w1)
      | (Inr (Some (usr, r)), w1) \<Rightarrow>
          (case bcrypt_compare_data B (body_password rq) (password usr) of
             Inl error \<Rightarrow> login_catch error su w1
           | Inr matches \<Rightarrow>
               if matches then
                 (case r of
                    None \<Rightarrow> login_catch null_Role su w1
                  | Some rl \<Rightarrow>
                      (Inr (Redirect ''/profile''),
                       Session (Some \<lparr>su_id = user_id usr, su_login = login usr,
                                      su_role = role_name rl\<rparr>),
                       w1))
               else (Inr (Send 401 msg_invalid_login), Session su, w1))))"

definition profile_handler :: "session_user option \<Rightarrow> world \<Rightarrow> outcome" where
  "profile_handler su w =
     (case su of
        Some u \<Rightarrow> (Inr (Send 200 (greeting (su_login u))), Session su, w)
      | None \<Rightarrow> (Inl undefined_user, Session su, w))"

definition admin_handler :: "session_user option \<Rightarrow> world \<Rightarrow> outcome" where
  "admin_handler su w = (Inr (Send 200 admin_greeting), Session su, w)"

definition logout_handler :: "store_destroy \<Rightarrow> sid \<Rightarrow> world \<Rightarrow> outcome" where
  \<comment> \<open>\<^verbatim>\<open>req.session.destroy\<close> removes \<^verbatim>\<open>req.session\<close>, asks the store to destroy the entry and
      passes what the store reports to the callback of lines 213 to 216\<close>
  "logout_handler destroy sessionID w =
     (case destroy sessionID (sessions w) of
        (err, ss) \<Rightarrow>
          (let w1 = w\<lparr>sessions := ss\<rparr>;
               w2 = (case err of
                       Some e \<Rightarrow> console_log (LogErrorMsg msg_logout_error e) w1
                     | None \<Rightarrow> w1)
           in (Inr (Redirect ''/''), NoSession, w2)))"

definition GET_root :: "sid \<Rightarrow> request \<Rightarrow> world \<Rightarrow> (js_error + response) \<times> world" where
  "GET_root new_sid rq = with_session new_sid rq (\<lambda>sessionID su. root_handler su)"

definition GET_register :: "sid \<Rightarrow> request \<Rightarrow> world \<Rightarrow> (js_error + response) \<times> world" where
  "GET_register new_sid rq =
     with_session new_sid rq (\<lambda>sessionID su w. (Inr (Render ''register''), Session su, w))"

definition POST_register ::
  "sequelize \<Rightarrow> bcrypt \<Rightarrow> string \<Rightarrow> sid \<Rightarrow> request \<Rightarrow> world
     \<Rightarrow> (js_error + response) \<times> world" where
  "POST_register S B salt new_sid rq =
     with_session new_sid rq (\<lambda>sessionID su. register_handler S B salt rq su)"

definition GET_login :: "sid \<Rightarrow> request \<Rightarrow> world \<Rightarrow> (js_error + response) \<times> world" where
  "GET_login new_sid rq =
     with_session new_sid rq (\<lambda>sessionID su w. (Inr (Render ''login''), Session su, w))"

definition POST_login ::
  "sequelize \<Rightarrow> bcrypt \<Rightarrow> sid \<Rightarrow> request \<Rightarrow> world \<Rightarrow> (js_error + response) \<times> world" where
  "POST_login S B new_sid rq = with_session new_sid rq (\<lambda>sessionID su. login_handler S B rq su)"

definition GET_profile :: "sid \<Rightarrow> request \<Rightarrow> world \<Rightarrow> (js_error + response) \<times> world" where
  "GET_profile new_sid rq =
     with_session new_sid rq (\<lambda>sessionID su. isAuthenticated su (profile_handler su))"

definition GET_admin :: "sid \<Rightarrow> request \<Rightarrow> world \<Rightarrow> (js_error + response) \<times> world" where
  "GET_admin new_sid rq =
     with_session new_sid rq
       (\<lambda>sessionID su. isAuthenticated su (hasRole ''admin'' su (admin_handler su)))"

definition GET_logout :: "store_destroy \<Rightarrow> sid \<Rightarrow> request \<Rightarrow> world \<Rightarrow> (js_error + response) \<times> world" where
  "GET_logout destroy new_sid rq =
     with_session new_sid rq (\<lambda>sessionID su. logout_handler destroy sessionID)"

section \<open>Notions the claims are stated with\<close>

text \<open>
  What the declarations of lines 18 to 63 make SQLite keep: both keys and both unique
  columns have no duplicates, and every \<^verbatim>\<open>roleId\<close> is the key of a role.
\<close>

definition db_ok :: "world \<Rightarrow> bool" where
  "db_ok w \<longleftrightarrow>
     distinct (map role_id (Roles w)) \<and> distinct (map role_name (Roles w)) \<and>
     distinct (map user_id (Users w)) \<and> distinct (map login (Users w)) \<and>
     list_all (\<lambda>u. roleId u \<in> set (map role_id (Roles w))) (Users w)"

definition has_role :: "string \<Rightarrow> world \<Rightarrow> bool" where
  \<comment> \<open>the Role table has a row of this name\<close>
  "has_role nm w \<longleftrightarrow> nm \<in> set (map role_name (Roles w))"

definition calls_ok :: "nat \<Rightarrow> world \<Rightarrow> bool" where
  \<comment> \<open>none of the next \<open>n\<close> calls of the persistence layer is rejected from outside\<close>
  "calls_ok n w \<longleftrightarrow> list_all (\<lambda>f. f = None) (take n (faults w))"

definition request_user :: "request \<Rightarrow> world \<Rightarrow> session_user option" where
  \<comment> \<open>the session a request carries: the stored session its cookie names, if any\<close>
  "request_user rq w = (case cookie rq of None \<Rightarrow> None | Some c \<Rightarrow> sessions w c)"


definition bcrypt_spec :: "bcrypt \<Rightarrow> bool" where
  \<comment> \<open>what the program takes from the library: a password verifies against its own hash,
      and a hash is a string of 60 characters\<close>
  "bcrypt_spec B \<longleftrightarrow>
     (\<forall>d r s. bcrypt_compare B d (bcrypt_hash B d r s) \<and> length (bcrypt_hash B d r s) = 60)"

subsection \<open>Notions used in the proofs\<close>

definition same_tables :: "world \<Rightarrow> world \<Rightarrow> bool" where
  "same_tables w w1 \<longleftrightarrow> Roles w1 = Roles w \<and> Users w1 = Users w \<and> sessions w1 = sessions w"

definition ensure_role :: "string \<Rightarrow> role list \<Rightarrow> role list" where
  \<comment> \<open>the role table after a \<open>Role_findOrCreate\<close> that is not rejected\<close>
  "ensure_role nm rs =
     (case find (\<lambda>r. role_name r = nm) rs of
        Some r \<Rightarrow> rs
      | None \<Rightarrow> rs @ [\<lparr>role_id = next_id (map role_id rs), role_name = nm\<rparr>])"

subsection \<open>A concrete store\<close>

text \<open>
  The examples below run the program on a store with both roles, an administrator and one
  user, each with an open session. \<open>demo_bcrypt\<close> stands in for the library there: it pads
  or cuts the password to 60 characters, which satisfies \<open>bcrypt_spec\<close> and nothing more;
  \<open>demo_sequelize\<close> rejects every login that is not a string.
\<close>

definition demo_bcrypt :: bcrypt where
  "demo_bcrypt =
     \<lparr>bcrypt_hash = (\<lambda>d r s. take 60 (d @ replicate 60 (CHR ''.''))),
      bcrypt_compare = (\<lambda>d h. h = take 60 (d @ replicate 60 (CHR ''.''))),
      hash_rejects = (\<lambda>f. JsError PlainError ''data and salt arguments required''),
      compare_rejects = (\<lambda>f. JsError PlainError ''data and hash arguments required'')\<rparr>"

definition demo_sequelize :: sequelize where
  "demo_sequelize =
     \<lparr>where_other = (\<lambda>v. Inl (JsError PlainError ''Invalid value'')),
      invalid_login = (\<lambda>f. JsError SequelizeValidationError ''Validation error'')\<rparr>"

definition fresh_world :: world where
  "fresh_world = \<lparr>Roles = [], Users = [], sessions = Map.empty, faults = [], console = []\<rparr>"

definition demo_world :: world where
  "demo_world =
     \<lparr>Roles = [\<lparr>role_id = 1, role_name = ''user''\<rparr>, \<lparr>role_id = 2, role_name = ''admin''\<rparr>],
      Users = [\<lparr>user_id = 1, login = ''admin'',
                password = bcrypt_hash demo_bcrypt ''admin'' 10 ''NaCl'', roleId = 2\<rparr>,
               \<lparr>user_id = 2, login = ''daisy'',
                password = bcrypt_hash demo_bcrypt ''tulip'' 10 ''NaCl'', roleId = 1\<rparr>],
      sessions = [''sid-admin'' \<mapsto> \<lparr>su_id = 1, su_login = ''admin'', su_role = ''admin''\<rparr>,
                  ''sid-daisy'' \<mapsto> \<lparr>su_id = 2, su_login = ''daisy'', su_role = ''user''\<rparr>],
      faults = [], console = []\<rparr>"

definition demo_request :: "sid option \<Rightarrow> field \<Rightarrow> field \<Rightarrow> request" where
  "demo_request c lg pw = \<lparr>cookie = c, body_login = lg, body_password = pw\<rparr>"

definition cannot_open :: js_error where
  "cannot_open = JsError SequelizeConnectionError ''SQLITE_CANTOPEN: unable to open database file''"

section \<open>Lemmas\<close>

subsection \<open>Calls to the store\<close>

text \<open>
  What each operation returns when its call is answered, and what a rejected call returns.
\<close>

lemma session_load_user [simp]: "snd (session_load new_sid rq w) = request_user rq w"
  by (simp add: session_load_def request_user_def split: option.splits)

lemma query_ok:
  "calls_ok (Suc n) w \<Longrightarrow> query f w = f (w\<lparr>faults := tl (faults w)\<rparr>)"
proof (cases "faults w")
  case Nil
  then have e: "w\<lparr>faults := tl (faults w)\<rparr> = w" by simp
  from Nil have "query f w = f w" by (simp add: query_def)
  then show ?thesis by (simp only: e)
next
  case (Cons a fs)
  assume "calls_ok (Suc n) w"
  with Cons show ?thesis by (simp add: query_def calls_ok_def)
qed

lemma calls_ok_tl:
  "calls_ok (Suc n) w \<Longrightarrow> calls_ok n (w\<lparr>faults := tl (faults w)\<rparr>)"
  by (cases "faults w") (auto simp: calls_ok_def)

lemma query_fault:
  "faults w = Some e # fs \<Longrightarrow> query f w = (Inl e, w\<lparr>faults := fs\<rparr>)"
  by (simp add: query_def)

lemma include_Role_faults [simp]: "include_Role (w\<lparr>faults := fs\<rparr>) = include_Role w"
  by (simp add: include_Role_def fun_eq_iff)

lemma Role_findOne_ok:
  "calls_ok (Suc n) w \<Longrightarrow>
   Role_findOne nm w = (Inr (find (\<lambda>r. role_name r = nm) (Roles w)), w\<lparr>faults := tl (faults w)\<rparr>)"
  unfolding Role_findOne_def by (simp add: query_ok) simp

lemma User_findOne_ok:
  "calls_ok (Suc n) w \<Longrightarrow>
   User_findOne cond w =
     (Inr (map_option (include_Role w) (find (\<lambda>u. cond (login u)) (Users w))),
      w\<lparr>faults := tl (faults w)\<rparr>)"
  unfolding User_findOne_def by (simp add: query_ok) simp


lemma User_count_ok:
  "calls_ok (Suc n) w \<Longrightarrow> User_count w = (Inr (length (Users w)), w\<lparr>faults := tl (faults w)\<rparr>)"
  unfolding User_count_def by (simp add: query_ok) simp

lemma sequelize_sync_ok:
  "calls_ok (Suc n) w \<Longrightarrow> sequelize_sync False w = (Inr (), w\<lparr>faults := tl (faults w)\<rparr>)"
  unfolding sequelize_sync_def by (simp add: query_ok)

lemma User_create_ok:
  "calls_ok (Suc n) w \<Longrightarrow>
   User_create lg pw rid w =
     (if lg \<in> set (map login (Users w)) then (Inl unique_violation, w\<lparr>faults := tl (faults w)\<rparr>)
      else if rid \<notin> set (map role_id (Roles w))
        then (Inl foreign_key_violation, w\<lparr>faults := tl (faults w)\<rparr>)
      else (Inr \<lparr>user_id = next_id (map user_id (Users w)), login = lg, password = pw, roleId = rid\<rparr>,
            w\<lparr>faults := tl (faults w),
              Users := Users w @ [\<lparr>user_id = next_id (map user_id (Users w)), login = lg,
                                   password = pw, roleId = rid\<rparr>]\<rparr>))"
  unfolding User_create_def by (simp add: query_ok) (simp add: Let_def)

lemma Role_findOrCreate_ok:
  "calls_ok (Suc n) w \<Longrightarrow>
   Role_findOrCreate nm w =
     (case find (\<lambda>r. role_name r = nm) (Roles w) of
        Some r \<Rightarrow> (Inr (r, False), w\<lparr>faults := tl (faults w)\<rparr>)
      | None \<Rightarrow>
          (Inr (\<lparr>role_id = next_id (map role_id (Roles w)), role_name = nm\<rparr>, True),
           w\<lparr>faults := tl (faults w),
             Roles := Roles w @ [\<lparr>role_id = next_id (map role_id (Roles w)), role_name = nm\<rparr>]\<rparr>))"
  unfolding Role_findOrCreate_def by (simp add: query_ok) (simp add: Let_def split: option.splits)

subsection \<open>The routes, unfolded\<close>

lemma GET_profile_unfold:
  "GET_profile new_sid rq w =
     (case request_user rq w of
        None \<Rightarrow> (Inr (Redirect ''/login''), w)
      | Some u \<Rightarrow> (Inr (Send 200 (greeting (su_login u))), w))"
  by (auto simp: GET_profile_def with_session_def session_load_def request_user_def
      isAuthenticated_def profile_handler_def session_save_def split: option.splits)

lemma find_distinct_key:
  "distinct (map f xs) \<Longrightarrow> x \<in> set xs \<Longrightarrow> find (\<lambda>y. f y = f x) xs = Some x"
  by (induction xs) auto

lemma find_None_iff_key: "find (\<lambda>y. f y = k) xs = None \<longleftrightarrow> k \<notin> set (map f xs)"
  by (induction xs) auto

lemma find_Some_key: "find (\<lambda>y. f y = k) xs = Some x \<Longrightarrow> x \<in> set xs \<and> f x = k"
  by (induction xs) (auto split: if_splits)

lemma GET_admin_unfold:
  "GET_admin new_sid rq w =
    (case request_user rq w of
       None \<Rightarrow> (Inr (Redirect ''/login''), w)
     | Some s \<Rightarrow>
        (case User_findByPk (su_id s) w of
           (Inl e, w1) \<Rightarrow> (Inl e, w1)
         | (Inr None, w1) \<Rightarrow> (Inr (Send 403 msg_forbidden), w1)
         | (Inr (Some (usr, None)), w1) \<Rightarrow> (Inl null_Role, w1)
         | (Inr (Some (usr, Some rl)), w1) \<Rightarrow>
            if role_name rl = ''admin'' then (Inr (Send 200 admin_greeting), w1)
            else (Inr (Send 403 msg_forbidden), w1)))"
  by (auto simp: GET_admin_def with_session_def session_load_def request_user_def
      isAuthenticated_def hasRole_def admin_handler_def session_save_def
      split: option.splits prod.splits sum.splits)



lemma session_save_same [simp]: "session_save sessionID su (Session su) w = w"
  by (simp add: session_save_def split: option.splits)

lemma session_load_stored:
  "session_load new_sid rq w = (k, Some u) \<Longrightarrow> sessions w k = Some u"
  by (auto simp: session_load_def split: option.splits)

lemma POST_login_unfold:
  "POST_login S B new_sid rq w =
     (case login_handler S B rq (request_user rq w) w of
        (Inl e, s, w1) \<Rightarrow> (Inl e, w1)
      | (Inr res, s, w1) \<Rightarrow>
          (Inr res, session_save (fst (session_load new_sid rq w)) (request_user rq w) s w1))"
  by (simp add: POST_login_def with_session_def split: prod.splits)
     (metis fst_conv snd_conv session_load_user)

lemma POST_register_unfold:
  "POST_register S B salt new_sid rq w =
     (case register_handler S B salt rq (request_user rq w) w of
        (Inl e, s, w1) \<Rightarrow> (Inl e, w1)
      | (Inr res, s, w1) \<Rightarrow>
          (Inr res, session_save (fst (session_load new_sid rq w)) (request_user rq w) s w1))"
  by (simp add: POST_register_def with_session_def split: prod.splits)
     (metis fst_conv snd_conv session_load_user)

lemma fields_Str [simp]:
  "bcrypt_hash_data B (Some (Str d)) r s = Inr (bcrypt_hash B d r s)"
  "bcrypt_compare_data B (Some (Str d)) h = Inr (bcrypt_compare B d h)"
  "where_login S (Some (Str lg)) = Inr (\<lambda>x. x = lg)"
  "validate_login S (Some (Str lg)) = Inr lg"
  by (simp_all add: bcrypt_hash_data_def bcrypt_compare_data_def where_login_def validate_login_def)

lemma bcrypt_hash_data_Inr:
  "bcrypt_hash_data B f r s = Inr h \<Longrightarrow> \<exists>d. f = Some (Str d) \<and> h = bcrypt_hash B d r s"
  by (auto simp: bcrypt_hash_data_def split: option.splits form_value.splits)

lemma validate_login_Inr: "validate_login S f = Inr lg \<Longrightarrow> f = Some (Str lg)"
  by (auto simp: validate_login_def split: option.splits form_value.splits)

lemma calls_ok_mono: "calls_ok (Suc n) w \<Longrightarrow> calls_ok n w"
  using set_take_subset_set_take[of n "Suc n" "faults w"]
  by (auto simp: calls_ok_def list_all_iff)

lemma POST_register_ok:
  assumes "calls_ok 2 w" and "find (\<lambda>r. role_name r = ''user'') (Roles w) = Some rl"
    and "body_login rq = Some (Str lg)" and "body_password rq = Some (Str pw)"
    and "lg \<notin> set (map login (Users w))"
  shows "POST_register S B salt new_sid rq w =
     (Inr (Redirect ''/login''),
      w\<lparr>faults := tl (tl (faults w)),
        Users := Users w @ [\<lparr>user_id = next_id (map user_id (Users w)), login = lg,
                             password = bcrypt_hash B pw 10 salt,
                             roleId = role_id rl\<rparr>]\<rparr>)"
proof -
  let ?w1 = "w\<lparr>faults := tl (faults w)\<rparr>"
  from assms(1) have c2: "calls_ok (Suc (Suc 0)) w" by (simp add: numeral_2_eq_2)
  from calls_ok_tl[OF c2] have c1: "calls_ok (Suc 0) ?w1" .
  from assms(2) have "rl \<in> set (Roles w)" by (auto dest: find_Some_key)
  then have rid: "role_id rl \<in> set (map role_id (Roles w))" by simp
  have "register_handler S B salt rq (request_user rq w) w =
     (Inr (Redirect ''/login''), Session (request_user rq w),
      w\<lparr>faults := tl (tl (faults w)),
        Users := Users w @ [\<lparr>user_id = next_id (map user_id (Users w)), login = lg,
                             password = bcrypt_hash B pw 10 salt,
                             roleId = role_id rl\<rparr>]\<rparr>)"
    using assms(2,3,4,5) rid
    by (simp add: register_handler_def Role_findOne_ok[OF c2] User_create_ok[OF c1])
  then show ?thesis by (simp add: POST_register_unfold)
qed

lemma find_append_new:
  "k \<notin> set (map f xs) \<Longrightarrow> f x = k \<Longrightarrow> find (\<lambda>y. f y = k) (xs @ [x]) = Some x"
  by (induction xs) auto

subsection \<open>Registration with a login that is taken\<close>

lemma Role_findOne_tables:
  "Role_findOne nm w = (r, w1) \<Longrightarrow>
     Users w1 = Users w \<and> Roles w1 = Roles w \<and> sessions w1 = sessions w"
  by (auto simp: Role_findOne_def query_def split: list.splits option.splits)

lemma one_row_per_key:
  "distinct (map f xs) \<Longrightarrow> k \<in> set (map f xs) \<Longrightarrow> length (filter (\<lambda>x. f x = k) xs) = 1"
proof (induction xs)
  case Nil
  then show ?case by simp
next
  case (Cons x xs)
  show ?case
  proof (cases "f x = k")
    case True
    have "\<forall>y\<in>set xs. f y \<noteq> k"
    proof
      fix y assume "y \<in> set xs"
      then have "f y \<in> f ` set xs" by (rule imageI)
      moreover from Cons.prems(1) True have "k \<notin> f ` set xs" by simp
      ultimately show "f y \<noteq> k" by auto
    qed
    then have "filter (\<lambda>x. f x = k) xs = []" by (simp add: filter_empty_conv)
    with True show ?thesis by simp
  next
    case False
    with Cons show ?thesis by auto
  qed
qed

lemma GET_logout_unfold:
  "GET_logout destroy new_sid rq w =
     (case destroy (fst (session_load new_sid rq w)) (sessions w) of
        (None, ss) \<Rightarrow> (Inr (Redirect ''/''), w\<lparr>sessions := ss\<rparr>)
      | (Some e, ss) \<Rightarrow>
          (Inr (Redirect ''/''), console_log (LogErrorMsg msg_logout_error e) (w\<lparr>sessions := ss\<rparr>)))"
  by (simp add: GET_logout_def with_session_def logout_handler_def session_save_def Let_def
      split: prod.splits option.splits)

subsection \<open>The bootstrap on a store that is complete\<close>

text \<open>
  With both roles and a user in the store, no step of the bootstrap writes, whether its
  calls are answered or rejected.
\<close>

lemma same_tables_refl [simp]: "same_tables w w"
  by (simp add: same_tables_def)

lemma same_tables_trans: "same_tables w w1 \<Longrightarrow> same_tables w1 w2 \<Longrightarrow> same_tables w w2"
  by (simp add: same_tables_def)

lemma same_tables_console_log [simp]: "same_tables w (console_log l w1) = same_tables w w1"
  by (simp add: same_tables_def console_log_def)

lemma calls_ok_console_log [simp]: "calls_ok n (console_log l w) = calls_ok n w"
  by (simp add: calls_ok_def console_log_def)

lemma has_role_console_log [simp]: "has_role nm (console_log l w) = has_role nm w"
  by (simp add: has_role_def console_log_def)

lemma tables_console_log [simp]:
  "Roles (console_log l w) = Roles w" "Users (console_log l w) = Users w"
  "sessions (console_log l w) = sessions w" "faults (console_log l w) = faults w"
  by (simp_all add: console_log_def)

lemma sequelize_sync_tables: "sequelize_sync False w = (r, w1) \<Longrightarrow> same_tables w w1"
  by (auto simp: sequelize_sync_def query_def same_tables_def split: list.splits option.splits)

lemma User_count_tables:
  "User_count w = (r, w1) \<Longrightarrow> same_tables w w1 \<and> (\<forall>n. r = Inr n \<longrightarrow> n = length (Users w))"
  by (auto simp: User_count_def query_def same_tables_def split: list.splits option.splits)

lemma Role_findOrCreate_users:
  "Role_findOrCreate nm w = (r, w1) \<Longrightarrow> Users w1 = Users w \<and> sessions w1 = sessions w"
  by (auto simp: Role_findOrCreate_def query_def Let_def split: list.splits option.splits)

lemma Role_findOrCreate_present:
  assumes "has_role nm w" and "Role_findOrCreate nm w = (r, w1)"
  shows "same_tables w w1"
proof -
  from assms(1) obtain rl where "find (\<lambda>r. role_name r = nm) (Roles w) = Some rl"
    by (cases "find (\<lambda>r. role_name r = nm) (Roles w)")
       (auto simp: has_role_def find_None_iff_key simp del: set_map)
  with assms(2) show ?thesis
    by (auto simp: Role_findOrCreate_def query_def same_tables_def split: list.splits option.splits)
qed

lemma has_role_same_tables: "same_tables w w1 \<Longrightarrow> has_role nm w1 = has_role nm w"
  by (simp add: same_tables_def has_role_def)

lemma bootstrap_then_users:
  assumes "Users w \<noteq> []"
  shows "Users (snd (bootstrap_then B salt w)) = Users w"
proof -
  obtain r1 w1 where f1: "Role_findOrCreate ''user'' (console_log (Log msg_db_synced) w) = (r1, w1)"
    by (cases "Role_findOrCreate ''user'' (console_log (Log msg_db_synced) w)")
  obtain r2 w2 where f2: "Role_findOrCreate ''admin'' w1 = (r2, w2)"
    by (cases "Role_findOrCreate ''admin'' w1")
  obtain r3 w3 where f3: "User_count w2 = (r3, w3)" by (cases "User_count w2")
  from Role_findOrCreate_users[OF f1] have u1: "Users w1 = Users w" by simp
  from Role_findOrCreate_users[OF f2] u1 have u2: "Users w2 = Users w" by simp
  from User_count_tables[OF f3] u2 have u3: "Users w3 = Users w"
    and n: "\<forall>n. r3 = Inr n \<longrightarrow> n = length (Users w)" by (simp_all add: same_tables_def)
  show ?thesis
  proof (cases r1)
    case Inl
    with f1 u1 show ?thesis by (simp add: bootstrap_then_def)
  next
    case a: (Inr userRole)
    show ?thesis
    proof (cases r2)
      case Inl
      with a f1 f2 u2 show ?thesis by (simp add: bootstrap_then_def)
    next
      case b: (Inr adminRole)
      show ?thesis
      proof (cases r3)
        case Inl
        with a b f1 f2 f3 u3 show ?thesis by (simp add: bootstrap_then_def)
      next
        case (Inr usersCount)
        with n assms have "usersCount \<noteq> 0" by simp
        with Inr a b f1 f2 f3 u3 show ?thesis by (simp add: bootstrap_then_def)
      qed
    qed
  qed
qed

lemma bootstrap_users:
  assumes "Users w \<noteq> []"
  shows "Users (bootstrap B salt w) = Users w"
proof -
  obtain r w1 where s: "sequelize_sync False w = (r, w1)" by (cases "sequelize_sync False w")
  from sequelize_sync_tables[OF s] have u: "Users w1 = Users w" by (simp add: same_tables_def)
  show ?thesis
  proof (cases r)
    case Inl
    with s u show ?thesis by (simp add: bootstrap_def)
  next
    case (Inr synced)
    from u assms have "Users w1 \<noteq> []" by simp
    from bootstrap_then_users[OF this, of B salt] u
    have "Users (snd (bootstrap_then B salt w1)) = Users w" by simp
    with Inr s show ?thesis
      by (cases "bootstrap_then B salt w1") (auto simp: bootstrap_def split: sum.splits)
  qed
qed

lemma bootstrap_then_again:
  assumes "has_role ''user'' w" and "has_role ''admin'' w" and "Users w \<noteq> []"
  shows "same_tables w (snd (bootstrap_then B salt w))"
proof -
  obtain r1 w1 where f1: "Role_findOrCreate ''user'' (console_log (Log msg_db_synced) w) = (r1, w1)"
    by (cases "Role_findOrCreate ''user'' (console_log (Log msg_db_synced) w)")
  obtain r2 w2 where f2: "Role_findOrCreate ''admin'' w1 = (r2, w2)"
    by (cases "Role_findOrCreate ''admin'' w1")
  obtain r3 w3 where f3: "User_count w2 = (r3, w3)" by (cases "User_count w2")
  from assms(1) have "has_role ''user'' (console_log (Log msg_db_synced) w)" by simp
  from Role_findOrCreate_present[OF this f1] have t1: "same_tables w w1"
    by (simp add: same_tables_def)
  from assms(2) t1 have "has_role ''admin'' w1" by (simp add: has_role_same_tables)
  from t1 Role_findOrCreate_present[OF this f2] have t2: "same_tables w w2"
    by (rule same_tables_trans)
  from User_count_tables[OF f3] t2 have t3: "same_tables w w3"
    and n: "\<forall>n. r3 = Inr n \<longrightarrow> n = length (Users w)"
    by (auto simp: same_tables_def)
  show ?thesis
  proof (cases r1)
    case Inl
    with f1 t1 show ?thesis by (simp add: bootstrap_then_def)
  next
    case a: (Inr userRole)
    show ?thesis
    proof (cases r2)
      case Inl
      with a f1 f2 t2 show ?thesis by (simp add: bootstrap_then_def)
    next
      case b: (Inr adminRole)
      show ?thesis
      proof (cases r3)
        case Inl
        with a b f1 f2 f3 t3 show ?thesis by (simp add: bootstrap_then_def)
      next
        case (Inr usersCount)
        with n assms(3) have "usersCount \<noteq> 0" by simp
        with Inr a b f1 f2 f3 t3 show ?thesis by (simp add: bootstrap_then_def)
      qed
    qed
  qed
qed

lemma bootstrap_again:
  assumes "has_role ''user'' w" and "has_role ''admin'' w" and "Users w \<noteq> []"
  shows "same_tables w (bootstrap B salt w)"
proof -
  obtain r w1 where s: "sequelize_sync False w = (r, w1)" by (cases "sequelize_sync False w")
  from sequelize_sync_tables[OF s] have t: "same_tables w w1" .
  show ?thesis
  proof (cases r)
    case Inl
    with s t show ?thesis by (simp add: bootstrap_def)
  next
    case (Inr synced)
    from t assms have "has_role ''user'' w1" "has_role ''admin'' w1" "Users w1 \<noteq> []"
      by (simp_all add: has_role_same_tables) (simp add: same_tables_def)
    from t bootstrap_then_again[OF this, of B salt]
    have "same_tables w (snd (bootstrap_then B salt w1))" by (rule same_tables_trans)
    with Inr s show ?thesis
      by (cases "bootstrap_then B salt w1") (auto simp: bootstrap_def split: sum.splits)
  qed
qed

subsection \<open>The first bootstrap\<close>

lemma calls_ok_tables [simp]:
  "calls_ok n (w\<lparr>Roles := rs\<rparr>) = calls_ok n w"
  "calls_ok n (w\<lparr>Users := us\<rparr>) = calls_ok n w"
  "calls_ok n (w\<lparr>sessions := ss\<rparr>) = calls_ok n w"
  by (simp_all add: calls_ok_def)

lemma has_role_find:
  "has_role nm w \<Longrightarrow> \<exists>rl. find (\<lambda>r. role_name r = nm) (Roles w) = Some rl"
  by (cases "find (\<lambda>r. role_name r = nm) (Roles w)")
     (auto simp: has_role_def find_None_iff_key simp del: set_map)

lemma find_ensure_role:
  "\<exists>rl. find (\<lambda>r. role_name r = nm) (ensure_role nm rs) = Some rl"
proof (cases "find (\<lambda>r. role_name r = nm) rs")
  case None
  then have "nm \<notin> set (map role_name rs)" by (simp add: find_None_iff_key)
  from find_append_new[OF this, of "\<lparr>role_id = next_id (map role_id rs), role_name = nm\<rparr>"] None
  show ?thesis by (simp add: ensure_role_def)
next
  case (Some rl)
  then show ?thesis by (simp add: ensure_role_def)
qed

lemma set_ensure_role: "set rs \<subseteq> set (ensure_role nm rs)"
  by (auto simp: ensure_role_def split: option.splits)

lemma names_ensure_role: "nm \<in> set (map role_name (ensure_role nm rs))"
proof -
  from find_ensure_role[of nm rs] obtain rl
    where "find (\<lambda>r. role_name r = nm) (ensure_role nm rs) = Some rl" by blast
  from find_Some_key[OF this] show ?thesis by auto
qed

lemma sequelize_sync_sum:
  assumes "calls_ok (Suc n) w"
  shows "\<exists>w1. sequelize_sync False w = (Inr (), w1) \<and> same_tables w w1 \<and> calls_ok n w1"
  using assms calls_ok_tl[OF assms] by (simp add: sequelize_sync_ok same_tables_def)

lemma User_count_sum:
  assumes "calls_ok (Suc n) w"
  shows "\<exists>w1. User_count w = (Inr (length (Users w)), w1) \<and> same_tables w w1 \<and> calls_ok n w1"
  using assms calls_ok_tl[OF assms] by (simp add: User_count_ok same_tables_def)

lemma Role_findOrCreate_sum:
  assumes "calls_ok (Suc n) w"
  shows "\<exists>r c w1. Role_findOrCreate nm w = (Inr (r, c), w1) \<and>
           Roles w1 = ensure_role nm (Roles w) \<and> Users w1 = Users w \<and>
           sessions w1 = sessions w \<and> calls_ok n w1 \<and>
           find (\<lambda>r. role_name r = nm) (Roles w1) = Some r"
proof (cases "find (\<lambda>r. role_name r = nm) (Roles w)")
  case None
  then have "nm \<notin> set (map role_name (Roles w))" by (simp add: find_None_iff_key)
  from find_append_new[OF this, of "\<lparr>role_id = next_id (map role_id (Roles w)), role_name = nm\<rparr>"]
  have "find (\<lambda>r. role_name r = nm)
          (Roles w @ [\<lparr>role_id = next_id (map role_id (Roles w)), role_name = nm\<rparr>]) =
        Some \<lparr>role_id = next_id (map role_id (Roles w)), role_name = nm\<rparr>" by simp
  with None calls_ok_tl[OF assms] show ?thesis
    by (auto simp add: Role_findOrCreate_ok[OF assms] ensure_role_def)
next
  case (Some rl)
  with calls_ok_tl[OF assms] show ?thesis
    by (auto simp add: Role_findOrCreate_ok[OF assms] ensure_role_def)
qed

lemma User_create_sum:
  assumes "calls_ok (Suc n) w" and "lg \<notin> set (map login (Users w))"
    and "rid \<in> set (map role_id (Roles w))"
  shows "\<exists>w1. User_create lg pw rid w =
            (Inr \<lparr>user_id = next_id (map user_id (Users w)), login = lg, password = pw, roleId = rid\<rparr>, w1) \<and>
           Users w1 = Users w @ [\<lparr>user_id = next_id (map user_id (Users w)), login = lg,
                                   password = pw, roleId = rid\<rparr>] \<and>
           Roles w1 = Roles w \<and> sessions w1 = sessions w \<and> calls_ok n w1"
  using assms(2,3) calls_ok_tl[OF assms(1)] by (simp add: User_create_ok[OF assms(1)])

lemma bootstrap_first:
  assumes "calls_ok 5 w"
  shows "Roles (bootstrap B salt w) = ensure_role ''admin'' (ensure_role ''user'' (Roles w)) \<and>
         (Users w \<noteq> [] \<longrightarrow> Users (bootstrap B salt w) = Users w) \<and>
         (Users w = [] \<longrightarrow>
            (\<exists>rl. find (\<lambda>r. role_name r = ''admin'') (Roles (bootstrap B salt w)) = Some rl \<and>
               Users (bootstrap B salt w) =
                 [\<lparr>user_id = 1, login = ''admin'', password = bcrypt_hash B ''admin'' 10 salt,
                   roleId = role_id rl\<rparr>]))"
proof -
  from assms have c5: "calls_ok (Suc (Suc (Suc (Suc (Suc 0))))) w"
    by (simp add: eval_nat_numeral)
  from sequelize_sync_sum[OF c5] obtain w1
    where s: "sequelize_sync False w = (Inr (), w1)" and t1: "same_tables w w1"
      and c4: "calls_ok (Suc (Suc (Suc (Suc 0)))) w1" by blast
  let ?w1 = "console_log (Log msg_db_synced) w1"
  from c4 have "calls_ok (Suc (Suc (Suc (Suc 0)))) ?w1" by simp
  from Role_findOrCreate_sum[OF this, of "''user''"] obtain userRole w2
    where f1: "Role_findOrCreate ''user'' ?w1 = (Inr userRole, w2)"
      and r2: "Roles w2 = ensure_role ''user'' (Roles w)" and u2: "Users w2 = Users w"
      and c3: "calls_ok (Suc (Suc (Suc 0))) w2"
    using t1 by (auto simp: same_tables_def)
  from Role_findOrCreate_sum[OF c3, of "''admin''"] obtain rl created w3
    where f2: "Role_findOrCreate ''admin'' w2 = (Inr (rl, created), w3)"
      and r3: "Roles w3 = ensure_role ''admin'' (ensure_role ''user'' (Roles w))"
      and u3: "Users w3 = Users w" and c2: "calls_ok (Suc (Suc 0)) w3"
      and fr: "find (\<lambda>r. role_name r = ''admin'') (Roles w3) = Some rl"
    using r2 u2 by auto
  from User_count_sum[OF c2] obtain w4
    where f3: "User_count w3 = (Inr (length (Users w)), w4)" and t4: "same_tables w3 w4"
      and c1: "calls_ok (Suc 0) w4" using u3 by auto
  from t4 r3 u3 fr have r4: "Roles w4 = ensure_role ''admin'' (ensure_role ''user'' (Roles w))"
    and u4: "Users w4 = Users w"
    and fr4: "find (\<lambda>r. role_name r = ''admin'') (Roles w4) = Some rl"
    by (simp_all add: same_tables_def)
  show ?thesis
  proof (cases "Users w = []")
    case False
    with s f1 f2 f3 r4 u4 show ?thesis
      by (simp add: bootstrap_def bootstrap_then_def)
  next
    case True
    from fr4 have "rl \<in> set (Roles w4)" by (auto dest: find_Some_key)
    then have rid: "role_id rl \<in> set (map role_id (Roles w4))" by simp
    from True u4 have "''admin'' \<notin> set (map login (Users w4))" by simp
    from User_create_sum[OF c1 this rid, of "bcrypt_hash B ''admin'' 10 salt"] True u4
    obtain w5 where f4: "User_create ''admin'' (bcrypt_hash B ''admin'' 10 salt) (role_id rl) w4 =
        (Inr \<lparr>user_id = 1, login = ''admin'', password = bcrypt_hash B ''admin'' 10 salt,
              roleId = role_id rl\<rparr>, w5)"
      and u5: "Users w5 = [\<lparr>user_id = 1, login = ''admin'',
                 password = bcrypt_hash B ''admin'' 10 salt, roleId = role_id rl\<rparr>]"
      and r5: "Roles w5 = Roles w4"
      by (auto simp: next_id_def)
    from True s f1 f2 f3 f4 r4 r5 u5 fr4 show ?thesis
      by (simp add: bootstrap_def bootstrap_then_def)
  qed
qed

subsection \<open>The constraints of the schema are kept\<close>

text \<open>
  The bootstrap and the registration keep \<open>db_ok\<close>, and the roles stay once the
  bootstrap has made them: the stores the claims assume are the stores the program reaches.
\<close>

lemma fold_max_ge: "(a::int) \<le> fold max xs a \<and> (\<forall>x\<in>set xs. x \<le> fold max xs a)"
proof (induction xs arbitrary: a)
  case Nil
  then show ?case by simp
next
  case (Cons y ys)
  from Cons.IH[of "max y a"] show ?case by auto
qed

lemma next_id_fresh: "next_id ids \<notin> set ids"
proof
  assume "next_id ids \<in> set ids"
  with fold_max_ge[of 0 ids] have "next_id ids \<le> fold max ids 0" by blast
  then show False by (simp add: next_id_def)
qed

lemma db_ok_same_tables: "same_tables w w1 \<Longrightarrow> db_ok w1 = db_ok w"
  by (simp add: same_tables_def db_ok_def)

lemma db_ok_ensure_role:
  assumes "db_ok w"
  shows "db_ok (w\<lparr>Roles := ensure_role nm (Roles w)\<rparr>)"
proof (cases "find (\<lambda>r. role_name r = nm) (Roles w)")
  case None
  then have "nm \<notin> set (map role_name (Roles w))" by (simp add: find_None_iff_key)
  with assms next_id_fresh[of "map role_id (Roles w)"] None show ?thesis
    by (auto simp: db_ok_def ensure_role_def list_all_iff)
next
  case (Some rl)
  with assms show ?thesis by (simp add: ensure_role_def db_ok_def)
qed

lemma db_ok_new_user:
  assumes "db_ok w" and "lg \<notin> set (map login (Users w))" and "rid \<in> set (map role_id (Roles w))"
  shows "db_ok (w\<lparr>Users := Users w @ [\<lparr>user_id = next_id (map user_id (Users w)), login = lg,
                                       password = pw, roleId = rid\<rparr>]\<rparr>)"
  using assms next_id_fresh[of "map user_id (Users w)"]
  by (auto simp: db_ok_def list_all_iff)

lemma db_ok_session_save [simp]: "db_ok (session_save k l s w) = db_ok w"
  by (simp add: session_save_def db_ok_def split: req_session.splits option.splits)

lemma bootstrap_keeps_constraints:
  assumes "db_ok w" and "calls_ok 5 w"
  shows "db_ok (bootstrap B salt w)"
proof -
  let ?rs = "ensure_role ''admin'' (ensure_role ''user'' (Roles w))"
  from db_ok_ensure_role[OF db_ok_ensure_role[OF assms(1), of "''user''"], of "''admin''"]
  have ok: "db_ok (w\<lparr>Roles := ?rs\<rparr>)" by simp
  from bootstrap_first[OF assms(2), of B salt]
  have r: "Roles (bootstrap B salt w) = ?rs" by blast
  show ?thesis
  proof (cases "Users w = []")
    case False
    with bootstrap_first[OF assms(2), of B salt] have "Users (bootstrap B salt w) = Users w" by blast
    with r have "db_ok (bootstrap B salt w) = db_ok (w\<lparr>Roles := ?rs\<rparr>)"
      by (simp add: db_ok_def)
    with ok show ?thesis by simp
  next
    case True
    with bootstrap_first[OF assms(2), of B salt] obtain rl
      where fr: "find (\<lambda>r. role_name r = ''admin'') (Roles (bootstrap B salt w)) = Some rl"
        and u: "Users (bootstrap B salt w) =
                 [\<lparr>user_id = 1, login = ''admin'', password = bcrypt_hash B ''admin'' 10 salt,
                   roleId = role_id rl\<rparr>]" by blast
    from find_Some_key[OF fr] have "rl \<in> set (Roles (bootstrap B salt w))" by simp
    with ok r u show ?thesis by (simp add: db_ok_def)
  qed
qed

lemma bootstrap_establishes:
  assumes "calls_ok 5 w"
  shows "has_role ''user'' (bootstrap B salt w) \<and> has_role ''admin'' (bootstrap B salt w) \<and>
         Users (bootstrap B salt w) \<noteq> []"
proof -
  let ?w1 = "bootstrap B salt w"
  from bootstrap_first[OF assms, of B salt]
  have r: "Roles ?w1 = ensure_role ''admin'' (ensure_role ''user'' (Roles w))" by blast
  have u: "Users ?w1 \<noteq> []"
  proof (cases "Users w = []")
    case True
    with bootstrap_first[OF assms, of B salt] obtain u where "Users ?w1 = [u]" by blast
    then show ?thesis by simp
  next
    case False
    with bootstrap_first[OF assms, of B salt] show ?thesis by simp
  qed
  from r have adm: "has_role ''admin'' ?w1" by (simp add: has_role_def names_ensure_role del: set_map)
  have "''user'' \<in> set (map role_name (ensure_role ''user'' (Roles w)))" by (rule names_ensure_role)
  with set_ensure_role[of "ensure_role ''user'' (Roles w)" "''admin''"] r
  have usr: "has_role ''user'' ?w1" by (auto simp: has_role_def)
  from usr adm u show ?thesis by simp
qed

lemma User_create_cases:
  assumes "User_create lg pw rid w = (r, w1)"
  shows "(\<exists>e. r = Inl e \<and> same_tables w w1) \<or>
         (lg \<notin> set (map login (Users w)) \<and> rid \<in> set (map role_id (Roles w)) \<and>
          (\<exists>u. r = Inr u) \<and> Roles w1 = Roles w \<and> sessions w1 = sessions w \<and>
          Users w1 = Users w @ [\<lparr>user_id = next_id (map user_id (Users w)), login = lg,
                                  password = pw, roleId = rid\<rparr>])"
  using assms
  by (auto simp: User_create_def query_def same_tables_def Let_def
      split: list.splits option.splits if_splits)

text \<open>
  Every run of the registration handler ends in one of two ways: a 400 with the tables as
  they were, or the redirect with one new row, which needs a login and a password that
  are strings, a login that is free and the role \<open>user\<close>.
\<close>

lemma register_handler_cases:
  "\<exists>res w1. register_handler S B salt rq su w = (Inr res, Session su, w1) \<and>
     ((\<exists>m. res = Send 400 m) \<and> same_tables w w1 \<or>
      (\<exists>lg pw rl. body_login rq = Some (Str lg) \<and> body_password rq = Some (Str pw) \<and>
         lg \<notin> set (map login (Users w)) \<and> rl \<in> set (Roles w) \<and>
         res = Redirect ''/login'' \<and> Roles w1 = Roles w \<and> sessions w1 = sessions w \<and>
         Users w1 = Users w @ [\<lparr>user_id = next_id (map user_id (Users w)), login = lg,
                                 password = bcrypt_hash B pw 10 salt, roleId = role_id rl\<rparr>]))"
proof -
  obtain r w1 where f: "Role_findOne ''user'' w = (r, w1)" by (cases "Role_findOne ''user'' w")
  from Role_findOne_tables[OF f] have t: "same_tables w w1" by (simp add: same_tables_def)
  have fail: ?thesis
    if "register_handler S B salt rq su w = (Inr (Send 400 m), Session su, w2) \<and> same_tables w w2"
    for m w2
    using that by blast
  show ?thesis
  proof (cases r)
    case (Inl e)
    with f t show ?thesis
      by (intro fail[of "msg_register_error @ '' '' @ message e"
            "console_log (LogErrorMsg msg_register_error e) w1"])
         (simp add: register_handler_def register_catch_def)
  next
    case (Inr found)
    show ?thesis
    proof (cases found)
      case None
      with Inr f t show ?thesis
        by (intro fail[of msg_role_not_found w1]) (simp add: register_handler_def)
    next
      case (Some rl)
      with Inr f have "find (\<lambda>r. role_name r = ''user'') (Roles w1) = Some rl"
        by (auto simp: Role_findOne_def query_def split: list.splits option.splits)
      with t have rl: "rl \<in> set (Roles w)" by (auto simp: same_tables_def dest: find_Some_key)
      show ?thesis
      proof (cases "bcrypt_hash_data B (body_password rq) 10 salt")
        case (Inl e)
        with Some Inr f t show ?thesis
          by (intro fail[of "msg_register_error @ '' '' @ message e"
                "console_log (LogErrorMsg msg_register_error e) w1"])
             (simp add: register_handler_def register_catch_def)
      next
        case h: (Inr hashedPassword)
        from bcrypt_hash_data_Inr[OF h] obtain pw
          where pw: "body_password rq = Some (Str pw)"
            and hp: "hashedPassword = bcrypt_hash B pw 10 salt" by blast
        show ?thesis
        proof (cases "validate_login S (body_login rq)")
          case (Inl e)
          with h Some Inr f t show ?thesis
            by (intro fail[of "msg_register_error @ '' '' @ message e"
                  "console_log (LogErrorMsg msg_register_error e) w1"])
               (simp add: register_handler_def register_catch_def)
        next
          case v: (Inr lg)
          from validate_login_Inr[OF v] have lg: "body_login rq = Some (Str lg)" .
          obtain r2 w2 where c: "User_create lg hashedPassword (role_id rl) w1 = (r2, w2)"
            by (cases "User_create lg hashedPassword (role_id rl) w1")
          from User_create_cases[OF c] show ?thesis
          proof
            assume "\<exists>e. r2 = Inl e \<and> same_tables w1 w2"
            then obtain e where e: "r2 = Inl e" and t2: "same_tables w1 w2" by blast
            from t t2 have "same_tables w w2" by (rule same_tables_trans)
            with e c v h Some Inr f show ?thesis
              by (intro fail[of "msg_register_error @ '' '' @ message e"
                    "console_log (LogErrorMsg msg_register_error e) w2"])
                 (simp add: register_handler_def register_catch_def)
          next
            assume a: "lg \<notin> set (map login (Users w1)) \<and>
              role_id rl \<in> set (map role_id (Roles w1)) \<and> (\<exists>u. r2 = Inr u) \<and>
              Roles w2 = Roles w1 \<and> sessions w2 = sessions w1 \<and>
              Users w2 = Users w1 @ [\<lparr>user_id = next_id (map user_id (Users w1)), login = lg,
                                       password = hashedPassword, roleId = role_id rl\<rparr>]"
            then obtain u where u: "r2 = Inr u" by blast
            from u c v h Some Inr f
            have "register_handler S B salt rq su w = (Inr (Redirect ''/login''), Session su, w2)"
              by (simp add: register_handler_def)
            moreover from a t hp
            have "lg \<notin> set (map login (Users w))" and "Roles w2 = Roles w"
              and "sessions w2 = sessions w"
              and "Users w2 = Users w @ [\<lparr>user_id = next_id (map user_id (Users w)), login = lg,
                                 password = bcrypt_hash B pw 10 salt, roleId = role_id rl\<rparr>]"
              by (simp_all add: same_tables_def)
            ultimately show ?thesis using lg pw rl by blast
          qed
        qed
      qed
    qed
  qed
qed

lemma POST_register_cases:
  "\<exists>res w1. POST_register S B salt new_sid rq w = (Inr res, w1) \<and>
     ((\<exists>m. res = Send 400 m) \<and> same_tables w w1 \<or>
      (\<exists>lg pw rl. body_login rq = Some (Str lg) \<and> body_password rq = Some (Str pw) \<and>
         lg \<notin> set (map login (Users w)) \<and> rl \<in> set (Roles w) \<and>
         res = Redirect ''/login'' \<and> Roles w1 = Roles w \<and> sessions w1 = sessions w \<and>
         Users w1 = Users w @ [\<lparr>user_id = next_id (map user_id (Users w)), login = lg,
                                 password = bcrypt_hash B pw 10 salt, roleId = role_id rl\<rparr>]))"
proof -
  from register_handler_cases[of S B salt rq "request_user rq w" w] obtain res w1
    where h: "register_handler S B salt rq (request_user rq w) w =
                (Inr res, Session (request_user rq w), w1)"
      and c: "(\<exists>m. res = Send 400 m) \<and> same_tables w w1 \<or>
      (\<exists>lg pw rl. body_login rq = Some (Str lg) \<and> body_password rq = Some (Str pw) \<and>
         lg \<notin> set (map login (Users w)) \<and> rl \<in> set (Roles w) \<and>
         res = Redirect ''/login'' \<and> Roles w1 = Roles w \<and> sessions w1 = sessions w \<and>
         Users w1 = Users w @ [\<lparr>user_id = next_id (map user_id (Users w)), login = lg,
                                 password = bcrypt_hash B pw 10 salt, roleId = role_id rl\<rparr>])"
    by blast
  from h have "POST_register S B salt new_sid rq w = (Inr res, w1)"
    by (simp add: POST_register_unfold)
  with c show ?thesis by blast
qed

lemma register_keeps_constraints:
  assumes "db_ok w"
  shows "db_ok (snd (POST_register S B salt new_sid rq w))"
proof -
  from POST_register_cases[of S B salt new_sid rq w] obtain res w1
    where h: "POST_register S B salt new_sid rq w = (Inr res, w1)"
      and c: "same_tables w w1 \<or>
      (\<exists>lg pw rl. lg \<notin> set (map login (Users w)) \<and> rl \<in> set (Roles w) \<and>
         Roles w1 = Roles w \<and>
         Users w1 = Users w @ [\<lparr>user_id = next_id (map user_id (Users w)), login = lg,
                                 password = pw, roleId = role_id rl\<rparr>])"
    by blast
  from c have "db_ok w1"
  proof
    assume "same_tables w w1"
    with assms show ?thesis by (simp add: db_ok_same_tables)
  next
    assume "\<exists>lg pw rl. lg \<notin> set (map login (Users w)) \<and> rl \<in> set (Roles w) \<and>
         Roles w1 = Roles w \<and>
         Users w1 = Users w @ [\<lparr>user_id = next_id (map user_id (Users w)), login = lg,
                                 password = pw, roleId = role_id rl\<rparr>]"
    then obtain lg pw rl where a: "lg \<notin> set (map login (Users w))" "rl \<in> set (Roles w)"
      "Roles w1 = Roles w"
      "Users w1 = Users w @ [\<lparr>user_id = next_id (map user_id (Users w)), login = lg,
                                 password = pw, roleId = role_id rl\<rparr>]" by blast
    from a(2) have "role_id rl \<in> set (map role_id (Roles w))" by simp
    from db_ok_new_user[OF assms a(1) this, of pw]
    have "db_ok (w\<lparr>Users := Users w1\<rparr>)" by (simp add: a(4))
    moreover from a(3) have "db_ok w1 = db_ok (w\<lparr>Users := Users w1\<rparr>)" by (simp add: db_ok_def)
    ultimately show ?thesis by simp
  qed
  with h show ?thesis by simp
qed

lemma register_keeps_roles: "Roles (snd (POST_register S B salt new_sid rq w)) = Roles w"
proof -
  from POST_register_cases[of S B salt new_sid rq w] obtain res w1
    where "POST_register S B salt new_sid rq w = (Inr res, w1)"
      and "same_tables w w1 \<or> Roles w1 = Roles w" by blast
  then show ?thesis by (auto simp: same_tables_def)
qed

lemma register_taken_login:
  assumes "body_login rq = Some (Str lg)" and "lg \<in> set (map login (Users w))"
  shows "\<exists>m w1. POST_register S B salt new_sid rq w = (Inr (Send 400 m), w1) \<and> same_tables w w1"
proof -
  from POST_register_cases[of S B salt new_sid rq w] assms show ?thesis by force
qed

section \<open>The claims\<close>

lemma demo_bcrypt_spec: "bcrypt_spec demo_bcrypt"
  by (auto simp add: bcrypt_spec_def demo_bcrypt_def)

subsection \<open>C1: registering, then logging in\<close>

lemma register_login_steps:
  assumes "db_ok w" and "has_role ''user'' w" and "calls_ok 3 w" and "bcrypt_spec B"
    and "body_login rq = Some (Str lg)" and "body_password rq = Some (Str pw)"
    and "lg \<notin> set (map login (Users w))"
    and "body_login rq' = body_login rq" and "body_password rq' = body_password rq"
    and "POST_register S B salt sid1 rq w = (r1, w1)"
    and "POST_login S B sid2 rq' w1 = (r2, w2)"
  shows "r1 = Inr (Redirect ''/login'') \<and> r2 = Inr (Redirect ''/profile'') \<and>
         (\<exists>u. sessions w2 (fst (session_load sid2 rq' w1)) = Some u \<and>
              su_login u = lg \<and> su_role u = ''user'')"
proof -
  from assms(2) obtain rl where rl: "find (\<lambda>r. role_name r = ''user'') (Roles w) = Some rl"
    by (cases "find (\<lambda>r. role_name r = ''user'') (Roles w)")
       (auto simp: has_role_def find_None_iff_key simp del: set_map)
  then have rl_in: "rl \<in> set (Roles w)" and rl_nm: "role_name rl = ''user''"
    by (auto dest: find_Some_key)
  let ?u = "\<lparr>user_id = next_id (map user_id (Users w)), login = lg,
             password = bcrypt_hash B pw 10 salt, roleId = role_id rl\<rparr>"
  from assms(3) have c3: "calls_ok (Suc (Suc (Suc 0))) w" by (simp add: numeral_3_eq_3)
  then have c2: "calls_ok 2 w" by (simp add: numeral_2_eq_2 calls_ok_mono)
  from POST_register_ok[OF c2 rl assms(5) assms(6) assms(7), of S B salt sid1] assms(10)
  have r1: "r1 = Inr (Redirect ''/login'')"
    and w1: "w1 = w\<lparr>faults := tl (tl (faults w)), Users := Users w @ [?u]\<rparr>" by simp_all
  from calls_ok_tl[OF calls_ok_tl[OF c3]] have "calls_ok (Suc 0) (w\<lparr>faults := tl (tl (faults w))\<rparr>)"
    by simp
  then have c1: "calls_ok (Suc 0) w1" by (simp add: w1 calls_ok_def)
  have fu: "find (\<lambda>u. login u = lg) (Users w1) = Some ?u"
    using assms(7) by (simp add: w1 find_append_new del: set_map)
  from assms(1) have "distinct (map role_id (Roles w))" by (simp add: db_ok_def)
  from find_distinct_key[OF this rl_in]
  have fr: "find (\<lambda>r. role_id r = roleId ?u) (Roles w1) = Some rl" by (simp add: w1)
  from assms(4) have cmp: "bcrypt_compare B pw (password ?u)"
    by (simp add: bcrypt_spec_def)
  let ?s = "\<lparr>su_id = user_id ?u, su_login = lg, su_role = ''user''\<rparr>"
  have h: "login_handler S B rq' (request_user rq' w1) w1 =
      (Inr (Redirect ''/profile''), Session (Some ?s), w1\<lparr>faults := tl (faults w1)\<rparr>)"
    using fu fr cmp rl_nm assms(5,6,8,9)
    by (simp add: login_handler_def User_findOne_ok[OF c1] include_Role_def)
  from h assms(11) have r2: "r2 = Inr (Redirect ''/profile'')"
    and w2: "w2 = session_save (fst (session_load sid2 rq' w1)) (request_user rq' w1)
                    (Session (Some ?s)) (w1\<lparr>faults := tl (faults w1)\<rparr>)"
    by (simp_all add: POST_login_unfold)
  have "sessions w2 (fst (session_load sid2 rq' w1)) = Some ?s"
  proof (cases "request_user rq' w1 = Some ?s")
    case True
    obtain k su where l: "session_load sid2 rq' w1 = (k, su)" by (cases "session_load sid2 rq' w1")
    with True have "su = Some ?s" by (metis session_load_user snd_conv)
    with l have "sessions w1 k = Some ?s" by (simp add: session_load_stored)
    with True l show ?thesis by (simp add: w2 session_save_def)
  next
    case False
    then show ?thesis by (simp add: w2 session_save_def)
  qed
  with r1 r2 show ?thesis by simp
qed

text \<open>
  C1. For every login that no row of the User table has, POST /register with that login
  and a password (both strings), followed by POST /login with the same login and
  password, succeeds: the registration redirects to /login, the login redirects to
  /profile, and the session of the login request is stored with that login and the role
  \<open>user\<close>. The store keeps the constraints of the schema and holds the role \<open>user\<close>
  (the bootstrap creates it), none of the three calls to the store is rejected from
  outside, and the library verifies a password against its own hash. The two requests may
  carry different cookies.
\<close>

theorem register_then_login:
  assumes "db_ok w" and "has_role ''user'' w" and "calls_ok 3 w" and "bcrypt_spec B"
    and "body_login rq = Some (Str lg)" and "body_password rq = Some (Str pw)"
    and "lg \<notin> set (map login (Users w))"
  shows "fst (POST_register S B salt sid1 rq w) = Inr (Redirect ''/login'') \<and>
         fst (POST_login S B sid2 (rq\<lparr>cookie := c\<rparr>) (snd (POST_register S B salt sid1 rq w))) =
           Inr (Redirect ''/profile'') \<and>
         (\<exists>u. sessions
                (snd (POST_login S B sid2 (rq\<lparr>cookie := c\<rparr>)
                        (snd (POST_register S B salt sid1 rq w))))
                (fst (session_load sid2 (rq\<lparr>cookie := c\<rparr>)
                        (snd (POST_register S B salt sid1 rq w)))) =
              Some u \<and>
              su_login u = lg \<and> su_role u = ''user'')"
proof -
  have "body_login (rq\<lparr>cookie := c\<rparr>) = body_login rq"
    and "body_password (rq\<lparr>cookie := c\<rparr>) = body_password rq" by simp_all
  from register_login_steps[OF assms this prod.collapse[symmetric] prod.collapse[symmetric]]
  show ?thesis .
qed

theorem register_then_login_witness:
  "db_ok demo_world \<and> has_role ''user'' demo_world \<and> calls_ok 3 demo_world \<and>
   bcrypt_spec demo_bcrypt \<and> ''rose'' \<notin> set (map login (Users demo_world)) \<and>
   fst (POST_register demo_sequelize demo_bcrypt ''NaCl'' ''sid-1''
          (demo_request None (Some (Str ''rose'')) (Some (Str ''thorn''))) demo_world) =
     Inr (Redirect ''/login'') \<and>
   fst (POST_login demo_sequelize demo_bcrypt ''sid-2''
          ((demo_request None (Some (Str ''rose'')) (Some (Str ''thorn'')))\<lparr>cookie := None\<rparr>)
          (snd (POST_register demo_sequelize demo_bcrypt ''NaCl'' ''sid-1''
                  (demo_request None (Some (Str ''rose'')) (Some (Str ''thorn''))) demo_world))) =
     Inr (Redirect ''/profile'')"
proof -
  have a: "db_ok demo_world" by (simp add: db_ok_def demo_world_def)
  have b: "has_role ''user'' demo_world" by (simp add: has_role_def demo_world_def)
  have c: "calls_ok 3 demo_world" by (simp add: calls_ok_def demo_world_def)
  have d: "bcrypt_spec demo_bcrypt" by (rule demo_bcrypt_spec)
  have e: "body_login (demo_request None (Some (Str ''rose'')) (Some (Str ''thorn''))) =
             Some (Str ''rose'')"
    and f: "body_password (demo_request None (Some (Str ''rose'')) (Some (Str ''thorn''))) =
             Some (Str ''thorn'')"
    by (simp_all add: demo_request_def)
  have g: "''rose'' \<notin> set (map login (Users demo_world))" by (simp add: demo_world_def)
  from register_then_login[OF a b c d e f g, of demo_sequelize "''NaCl''" "''sid-1''" "''sid-2''" None]
    a b c d g
  show ?thesis by blast
qed

subsection \<open>C2: the role guard of /admin\<close>



subsection \<open>C3: a failed login\<close>

text \<open>
  C3 as stated fails. It speaks of every POST /login and says that an unknown login and a
  password that does not verify get the same 401. A form without a password field is a
  POST /login too: for a login that exists \<^verbatim>\<open>bcrypt.compare\<close> is called with undefined,
  throws, and the \<^verbatim>\<open>catch\<close> of line 193 answers 500; for a login that does not exist the
  comparison is never reached (\<^verbatim>\<open>user &&\<close>, line 183) and the answer is 401. A form
  without a login field gets 500 as well, from the lookup, which throws.
\<close>

theorem login_with_missing_field:
  "''daisy'' \<in> set (map login (Users demo_world)) \<and>
   ''nobody'' \<notin> set (map login (Users demo_world)) \<and>
   fst (POST_login demo_sequelize demo_bcrypt ''sid-1''
          (demo_request None (Some (Str ''daisy'')) None) demo_world) =
     Inr (Send 500 (msg_server_error @ '' '' @ message (compare_rejects demo_bcrypt None))) \<and>
   fst (POST_login demo_sequelize demo_bcrypt ''sid-1''
          (demo_request None (Some (Str ''nobody'')) None) demo_world) =
     Inr (Send 401 msg_invalid_login) \<and>
   fst (POST_login demo_sequelize demo_bcrypt ''sid-1''
          (demo_request None None (Some (Str ''tulip''))) demo_world) =
     Inr (Send 500 (msg_server_error @ '' '' @ message where_undefined))"
  by (simp add: POST_login_unfold login_handler_def User_findOne_def query_def include_Role_def
      bcrypt_compare_data_def where_login_def login_catch_def demo_request_def demo_world_def)

lemma login_handler_refuses:
  assumes "db_ok w" and "calls_ok 1 w" and "body_login rq = Some (Str lg)"
    and "lg \<notin> set (map login (Users w)) \<or>
         (\<exists>u\<in>set (Users w). \<exists>pw. login u = lg \<and> body_password rq = Some (Str pw) \<and>
            \<not> bcrypt_compare B pw (password u))"
  shows "login_handler S B rq su w =
           (Inr (Send 401 msg_invalid_login), Session su, w\<lparr>faults := tl (faults w)\<rparr>)"
proof -
  have q: "User_findOne (\<lambda>x. x = lg) w =
      (Inr (map_option (include_Role w) (find (\<lambda>u. login u = lg) (Users w))),
       w\<lparr>faults := tl (faults w)\<rparr>)"
    using assms(2) by (simp add: User_findOne_ok)
  from assms(4) show ?thesis
  proof
    assume "lg \<notin> set (map login (Users w))"
    then have "find (\<lambda>u. login u = lg) (Users w) = None"
      by (simp add: find_None_iff_key)
    with q assms(3) show ?thesis by (simp add: login_handler_def)
  next
    assume "\<exists>u\<in>set (Users w). \<exists>pw. login u = lg \<and> body_password rq = Some (Str pw) \<and>
            \<not> bcrypt_compare B pw (password u)"
    then obtain u pw where u: "u \<in> set (Users w)" "login u = lg"
      "body_password rq = Some (Str pw)" "\<not> bcrypt_compare B pw (password u)" by blast
    from assms(1) have "distinct (map login (Users w))" by (simp add: db_ok_def)
    from find_distinct_key[OF this u(1)] u(2)
    have "find (\<lambda>u. login u = lg) (Users w) = Some u" by simp
    with q u(3,4) assms(3) show ?thesis by (simp add: login_handler_def include_Role_def)
  qed
qed

text \<open>
  C3, amended. POST /login with a login that is a string, when the lookup is not rejected
  from outside: if no user has that login, or the user with that login has a stored hash
  that the password, a string, does not verify against, the response is 401 with one and
  the same message in both cases (Nevernyi login ili parol', written out byte by byte), and
  the session store is left as it was (only the answered call is gone from the world).
  Where no user has the login, the password field may be anything.
\<close>

theorem failed_login:
  assumes "db_ok w" and "calls_ok 1 w" and "body_login rq = Some (Str lg)"
    and "lg \<notin> set (map login (Users w)) \<or>
         (\<exists>u\<in>set (Users w). \<exists>pw. login u = lg \<and> body_password rq = Some (Str pw) \<and>
            \<not> bcrypt_compare B pw (password u))"
  shows "POST_login S B new_sid rq w =
           (Inr (Send 401
              [CHR 0xD0, CHR 0x9D, CHR 0xD0, CHR 0xB5, CHR 0xD0, CHR 0xB2, CHR 0xD0, CHR 0xB5,
               CHR 0xD1, CHR 0x80, CHR 0xD0, CHR 0xBD, CHR 0xD1, CHR 0x8B, CHR 0xD0, CHR 0xB9,
               CHR 0x20, CHR 0xD0, CHR 0xBB, CHR 0xD0, CHR 0xBE, CHR 0xD0, CHR 0xB3, CHR 0xD0,
               CHR 0xB8, CHR 0xD0, CHR 0xBD, CHR 0x20, CHR 0xD0, CHR 0xB8, CHR 0xD0, CHR 0xBB,
               CHR 0xD0, CHR 0xB8, CHR 0x20, CHR 0xD0, CHR 0xBF, CHR 0xD0, CHR 0xB0, CHR 0xD1,
               CHR 0x80, CHR 0xD0, CHR 0xBE, CHR 0xD0, CHR 0xBB, CHR 0xD1, CHR 0x8C]),
            w\<lparr>faults := tl (faults w)\<rparr>) \<and>
         sessions (snd (POST_login S B new_sid rq w)) = sessions w"
  using login_handler_refuses[OF assms, of S "request_user rq w"]
  by (simp add: POST_login_unfold msg_invalid_login_def)

theorem failed_login_witness:
  "db_ok demo_world \<and> calls_ok 1 demo_world \<and>
   fst (POST_login demo_sequelize demo_bcrypt ''sid-1''
          (demo_request None (Some (Str ''daisy'')) (Some (Str ''wrong''))) demo_world) =
     Inr (Send 401
        [CHR 0xD0, CHR 0x9D, CHR 0xD0, CHR 0xB5, CHR 0xD0, CHR 0xB2, CHR 0xD0, CHR 0xB5,
         CHR 0xD1, CHR 0x80, CHR 0xD0, CHR 0xBD, CHR 0xD1, CHR 0x8B, CHR 0xD0, CHR 0xB9,
         CHR 0x20, CHR 0xD0, CHR 0xBB, CHR 0xD0, CHR 0xBE, CHR 0xD0, CHR 0xB3, CHR 0xD0,
         CHR 0xB8, CHR 0xD0, CHR 0xBD, CHR 0x20, CHR 0xD0, CHR 0xB8, CHR 0xD0, CHR 0xBB,
         CHR 0xD0, CHR 0xB8, CHR 0x20, CHR 0xD0, CHR 0xBF, CHR 0xD0, CHR 0xB0, CHR 0xD1,
         CHR 0x80, CHR 0xD0, CHR 0xBE, CHR 0xD0, CHR 0xBB, CHR 0xD1, CHR 0x8C]) \<and>
   fst (POST_login demo_sequelize demo_bcrypt ''sid-1''
          (demo_request None (Some (Str ''nobody'')) None) demo_world) =
     Inr (Send 401
        [CHR 0xD0, CHR 0x9D, CHR 0xD0, CHR 0xB5, CHR 0xD0, CHR 0xB2, CHR 0xD0, CHR 0xB5,
         CHR 0xD1, CHR 0x80, CHR 0xD0, CHR 0xBD, CHR 0xD1, CHR 0x8B, CHR 0xD0, CHR 0xB9,
         CHR 0x20, CHR 0xD0, CHR 0xBB, CHR 0xD0, CHR 0xBE, CHR 0xD0, CHR 0xB3, CHR 0xD0,
         CHR 0xB8, CHR 0xD0, CHR 0xBD, CHR 0x20, CHR 0xD0, CHR 0xB8, CHR 0xD0, CHR 0xBB,
         CHR 0xD0, CHR 0xB8, CHR 0x20, CHR 0xD0, CHR 0xBF, CHR 0xD0, CHR 0xB0, CHR 0xD1,
         CHR 0x80, CHR 0xD0, CHR 0xBE, CHR 0xD0, CHR 0xBB, CHR 0xD1, CHR 0x8C]) \<and>
   sessions (snd (POST_login demo_sequelize demo_bcrypt ''sid-1''
                    (demo_request None (Some (Str ''daisy'')) (Some (Str ''wrong''))) demo_world)) =
     sessions demo_world"
proof -
  let ?rq1 = "demo_request None (Some (Str ''daisy'')) (Some (Str ''wrong''))"
  let ?rq2 = "demo_request None (Some (Str ''nobody'')) None"
  have a: "db_ok demo_world" by (simp add: db_ok_def demo_world_def)
  have b: "calls_ok 1 demo_world" by (simp add: calls_ok_def demo_world_def)
  have l1: "body_login ?rq1 = Some (Str ''daisy'')" by (simp add: demo_request_def)
  have l2: "body_login ?rq2 = Some (Str ''nobody'')" by (simp add: demo_request_def)
  have c: "''daisy'' \<notin> set (map login (Users demo_world)) \<or>
     (\<exists>u\<in>set (Users demo_world). \<exists>pw. login u = ''daisy'' \<and> body_password ?rq1 = Some (Str pw) \<and>
        \<not> bcrypt_compare demo_bcrypt pw (password u))"
    by (simp add: demo_request_def demo_world_def demo_bcrypt_def)
  have d: "''nobody'' \<notin> set (map login (Users demo_world)) \<or>
     (\<exists>u\<in>set (Users demo_world). \<exists>pw. login u = ''nobody'' \<and> body_password ?rq2 = Some (Str pw) \<and>
        \<not> bcrypt_compare demo_bcrypt pw (password u))"
    by (simp add: demo_world_def)
  from failed_login[OF a b l1 c, of demo_sequelize "''sid-1''"]
    failed_login[OF a b l2 d, of demo_sequelize "''sid-1''"] a b
  show ?thesis by simp
qed

subsection \<open>C4: a duplicate registration\<close>

text \<open>
  C4. POST /register with a login that a row of the User table already has, on a store
  that keeps the constraints of the schema: the response is 400, both tables are what they
  were, and exactly one row has that login, whatever the password field is. When the
  password is a string, the store holds the role \<open>user\<close> and neither call is rejected
  from outside, the 400 is the caught violation of the unique index, with its message
  after the prefix of the handler.
\<close>

theorem duplicate_register:
  assumes "db_ok w" and "body_login rq = Some (Str lg)" and "lg \<in> set (map login (Users w))"
  shows "(\<exists>msg. fst (POST_register S B salt new_sid rq w) = Inr (Send 400 msg)) \<and>
         Users (snd (POST_register S B salt new_sid rq w)) = Users w \<and>
         Roles (snd (POST_register S B salt new_sid rq w)) = Roles w \<and>
         length (filter (\<lambda>u. login u = lg)
                   (Users (snd (POST_register S B salt new_sid rq w)))) = 1 \<and>
         (calls_ok 2 w \<and> has_role ''user'' w \<and> (\<exists>pw. body_password rq = Some (Str pw)) \<longrightarrow>
            fst (POST_register S B salt new_sid rq w) =
              Inr (Send 400 (msg_register_error @ '' '' @ message unique_violation)))"
proof -
  from register_taken_login[OF assms(2,3), of S B salt new_sid]
  obtain msg w1 where res: "POST_register S B salt new_sid rq w = (Inr (Send 400 msg), w1)"
    and t: "Users w1 = Users w" "Roles w1 = Roles w" by (auto simp: same_tables_def)
  from assms(1) have "distinct (map login (Users w))" by (simp add: db_ok_def)
  from one_row_per_key[OF this assms(3)]
  have one: "length (filter (\<lambda>u. login u = lg) (Users w)) = 1" .
  have unique: "msg = msg_register_error @ '' '' @ message unique_violation"
    if "calls_ok 2 w \<and> has_role ''user'' w \<and> (\<exists>pw. body_password rq = Some (Str pw))"
  proof -
    from that obtain pw where c: "calls_ok 2 w" and r: "has_role ''user'' w"
      and pw: "body_password rq = Some (Str pw)" by blast
    from r obtain rl where rl: "find (\<lambda>r. role_name r = ''user'') (Roles w) = Some rl"
      by (cases "find (\<lambda>r. role_name r = ''user'') (Roles w)")
         (auto simp: has_role_def find_None_iff_key simp del: set_map)
    from c have c2: "calls_ok (Suc (Suc 0)) w" by (simp add: numeral_2_eq_2)
    from calls_ok_tl[OF c2] have c1: "calls_ok (Suc 0) (w\<lparr>faults := tl (faults w)\<rparr>)" .
    have "register_handler S B salt rq (request_user rq w) w =
        (Inr (Send 400 (msg_register_error @ '' '' @ message unique_violation)),
         Session (request_user rq w),
         console_log (LogErrorMsg msg_register_error unique_violation)
           (w\<lparr>faults := tl (tl (faults w))\<rparr>))"
      using rl assms(2,3) pw
      by (simp add: register_handler_def Role_findOne_ok[OF c2] User_create_ok[OF c1]
          register_catch_def)
    then have "fst (POST_register S B salt new_sid rq w) =
        Inr (Send 400 (msg_register_error @ '' '' @ message unique_violation))"
      by (simp add: POST_register_unfold)
    with res show ?thesis by simp
  qed
  have "\<exists>m. fst (POST_register S B salt new_sid rq w) = Inr (Send 400 m)"
    by (simp add: res)
  moreover have "Users (snd (POST_register S B salt new_sid rq w)) = Users w"
    and "Roles (snd (POST_register S B salt new_sid rq w)) = Roles w"
    by (simp_all add: res t)
  moreover have "length (filter (\<lambda>u. login u = lg)
                   (Users (snd (POST_register S B salt new_sid rq w)))) = 1"
    by (simp add: res t one)
  moreover have "calls_ok 2 w \<and> has_role ''user'' w \<and> (\<exists>pw. body_password rq = Some (Str pw)) \<longrightarrow>
            fst (POST_register S B salt new_sid rq w) =
              Inr (Send 400 (msg_register_error @ '' '' @ message unique_violation))"
  proof
    assume "calls_ok 2 w \<and> has_role ''user'' w \<and> (\<exists>pw. body_password rq = Some (Str pw))"
    from unique[OF this] show "fst (POST_register S B salt new_sid rq w) =
              Inr (Send 400 (msg_register_error @ '' '' @ message unique_violation))"
      by (simp add: res)
  qed
  ultimately show ?thesis by blast
qed

theorem duplicate_register_witness:
  "db_ok demo_world \<and> ''daisy'' \<in> set (map login (Users demo_world)) \<and>
   calls_ok 2 demo_world \<and> has_role ''user'' demo_world \<and>
   fst (POST_register demo_sequelize demo_bcrypt ''NaCl'' ''sid-1''
          (demo_request None (Some (Str ''daisy'')) (Some (Str ''lily''))) demo_world) =
     Inr (Send 400 (msg_register_error @ '' '' @ message unique_violation)) \<and>
   Users (snd (POST_register demo_sequelize demo_bcrypt ''NaCl'' ''sid-1''
                 (demo_request None (Some (Str ''daisy'')) (Some (Str ''lily''))) demo_world)) =
     Users demo_world"
proof -
  let ?rq = "demo_request None (Some (Str ''daisy'')) (Some (Str ''lily''))"
  have a: "db_ok demo_world" by (simp add: db_ok_def demo_world_def)
  have l: "body_login ?rq = Some (Str ''daisy'')" by (simp add: demo_request_def)
  have b: "''daisy'' \<in> set (map login (Users demo_world))" by (simp add: demo_world_def)
  have c: "calls_ok 2 demo_world" by (simp add: calls_ok_def demo_world_def)
  have d: "has_role ''user'' demo_world" by (simp add: has_role_def demo_world_def)
  have e: "\<exists>pw. body_password ?rq = Some (Str pw)" by (simp add: demo_request_def)
  from duplicate_register[OF a l b, of demo_sequelize demo_bcrypt "''NaCl''" "''sid-1''"] a b c d e
  show ?thesis by blast
qed

subsection \<open>C5: the default administrator\<close>

text \<open>
  C5. The bootstrap on a store whose User table is empty, when none of its five calls is
  rejected from outside: afterwards the table has exactly one row, with login \<open>admin\<close>
  and a \<open>roleId\<close> that is the key of a role named \<open>admin\<close>; its password is the hash
  the library made of \<open>admin\<close>, which is not the string \<open>admin\<close> and against which
  \<open>admin\<close> verifies. On a store whose User table is not empty the bootstrap leaves the
  table as it is, whatever happens to its calls.
\<close>

theorem bootstrap_default_admin:
  "(calls_ok 5 w \<and> bcrypt_spec B \<and> Users w = [] \<longrightarrow>
      (\<exists>u. Users (bootstrap B salt w) = [u] \<and> login u = ''admin'' \<and>
           (\<exists>r\<in>set (Roles (bootstrap B salt w)). role_id r = roleId u \<and> role_name r = ''admin'') \<and>
           password u = bcrypt_hash B ''admin'' 10 salt \<and> password u \<noteq> ''admin'' \<and>
           bcrypt_compare B ''admin'' (password u))) \<and>
   (Users w \<noteq> [] \<longrightarrow> Users (bootstrap B salt w) = Users w)"
proof (intro conjI impI)
  assume a: "calls_ok 5 w \<and> bcrypt_spec B \<and> Users w = []"
  with bootstrap_first[of w B salt] obtain rl
    where fr: "find (\<lambda>r. role_name r = ''admin'') (Roles (bootstrap B salt w)) = Some rl"
      and u: "Users (bootstrap B salt w) =
                 [\<lparr>user_id = 1, login = ''admin'', password = bcrypt_hash B ''admin'' 10 salt,
                   roleId = role_id rl\<rparr>]" by blast
  from find_Some_key[OF fr] have rl: "rl \<in> set (Roles (bootstrap B salt w))" "role_name rl = ''admin''"
    by simp_all
  from a have cmp: "bcrypt_compare B ''admin'' (bcrypt_hash B ''admin'' 10 salt)"
    and len: "length (bcrypt_hash B ''admin'' 10 salt) = 60" by (simp_all add: bcrypt_spec_def)
  from len have ne: "bcrypt_hash B ''admin'' 10 salt \<noteq> ''admin''" by auto
  from u rl cmp ne show "\<exists>u. Users (bootstrap B salt w) = [u] \<and> login u = ''admin'' \<and>
           (\<exists>r\<in>set (Roles (bootstrap B salt w)). role_id r = roleId u \<and> role_name r = ''admin'') \<and>
           password u = bcrypt_hash B ''admin'' 10 salt \<and> password u \<noteq> ''admin'' \<and>
           bcrypt_compare B ''admin'' (password u)"
    by auto
next
  assume "Users w \<noteq> []"
  then show "Users (bootstrap B salt w) = Users w" by (rule bootstrap_users)
qed

theorem bootstrap_default_admin_witness:
  "calls_ok 5 fresh_world \<and> bcrypt_spec demo_bcrypt \<and> Users fresh_world = [] \<and>
   (\<exists>u. Users (bootstrap demo_bcrypt ''NaCl'' fresh_world) = [u] \<and> login u = ''admin'' \<and>
        (\<exists>r\<in>set (Roles (bootstrap demo_bcrypt ''NaCl'' fresh_world)).
            role_id r = roleId u \<and> role_name r = ''admin'') \<and>
        password u \<noteq> ''admin'' \<and> bcrypt_compare demo_bcrypt ''admin'' (password u)) \<and>
   Users demo_world \<noteq> [] \<and>
   Users (bootstrap demo_bcrypt ''NaCl'' demo_world) = Users demo_world"
proof -
  have a: "calls_ok 5 fresh_world" by (simp add: calls_ok_def fresh_world_def)
  have b: "bcrypt_spec demo_bcrypt" by (rule demo_bcrypt_spec)
  have c: "Users fresh_world = []" by (simp add: fresh_world_def)
  have d: "Users demo_world \<noteq> []" by (simp add: demo_world_def)
  from bootstrap_default_admin[of fresh_world demo_bcrypt "''NaCl''"]
    bootstrap_default_admin[of demo_world demo_bcrypt "''NaCl''"] a b c d
  show ?thesis by blast
qed

subsection \<open>C6: the authentication guard of /profile\<close>

text \<open>
  C6. GET /profile: a request with no session is redirected to /login and gets nothing
  else; a request with a session is answered with 200 and the text of line 202, written
  out here byte by byte: the welcome (Dobro pozhalovat'), a comma, the login of the
  session, an exclamation mark, and the link to /logout around the word Vyiti. Neither
  case changes the world.
\<close>

theorem GET_profile_guard:
  "GET_profile new_sid rq w =
     (case request_user rq w of
        None \<Rightarrow> (Inr (Redirect ''/login''), w)
      | Some u \<Rightarrow>
          (Inr (Send 200
             ([CHR 0xD0, CHR 0x94, CHR 0xD0, CHR 0xBE, CHR 0xD0, CHR 0xB1, CHR 0xD1, CHR 0x80,
                CHR 0xD0, CHR 0xBE, CHR 0x20, CHR 0xD0, CHR 0xBF, CHR 0xD0, CHR 0xBE, CHR 0xD0,
                CHR 0xB6, CHR 0xD0, CHR 0xB0, CHR 0xD0, CHR 0xBB, CHR 0xD0, CHR 0xBE, CHR 0xD0,
                CHR 0xB2, CHR 0xD0, CHR 0xB0, CHR 0xD1, CHR 0x82, CHR 0xD1, CHR 0x8C] @
              '', '' @ su_login u @ ''! <a href='' @ [CHR 0x22] @ ''/logout'' @ [CHR 0x22] @ ''>'' @
              [CHR 0xD0, CHR 0x92, CHR 0xD1, CHR 0x8B, CHR 0xD0, CHR 0xB9, CHR 0xD1, CHR 0x82,
                CHR 0xD0, CHR 0xB8] @ ''</a>'')), w))"
  by (simp add: GET_profile_unfold greeting_def logout_link_def msg_welcome_def msg_exit_def
      split: option.splits)

theorem GET_profile_guard_witness:
  "GET_profile ''sid-1'' (demo_request None None None) demo_world =
     (Inr (Redirect ''/login''), demo_world) \<and>
   GET_profile ''sid-1'' (demo_request (Some ''sid-daisy'') None None) demo_world =
     (Inr (Send 200
        ([CHR 0xD0, CHR 0x94, CHR 0xD0, CHR 0xBE, CHR 0xD0, CHR 0xB1, CHR 0xD1, CHR 0x80,
           CHR 0xD0, CHR 0xBE, CHR 0x20, CHR 0xD0, CHR 0xBF, CHR 0xD0, CHR 0xBE, CHR 0xD0,
           CHR 0xB6, CHR 0xD0, CHR 0xB0, CHR 0xD0, CHR 0xBB, CHR 0xD0, CHR 0xBE, CHR 0xD0,
           CHR 0xB2, CHR 0xD0, CHR 0xB0, CHR 0xD1, CHR 0x82, CHR 0xD1, CHR 0x8C] @
         '', '' @ ''daisy'' @ ''! <a href='' @ [CHR 0x22] @ ''/logout'' @ [CHR 0x22] @ ''>'' @
         [CHR 0xD0, CHR 0x92, CHR 0xD1, CHR 0x8B, CHR 0xD0, CHR 0xB9, CHR 0xD1, CHR 0x82,
           CHR 0xD0, CHR 0xB8] @ ''</a>'')), demo_world)"
proof -
  have "request_user (demo_request None None None) demo_world = None"
    by (simp add: request_user_def demo_request_def)
  moreover have "request_user (demo_request (Some ''sid-daisy'') None None) demo_world =
      Some \<lparr>su_id = 2, su_login = ''daisy'', su_role = ''user''\<rparr>"
    by (simp add: request_user_def demo_request_def demo_world_def)
  ultimately show ?thesis
    using GET_profile_guard[of "''sid-1''" "demo_request None None None" demo_world]
      GET_profile_guard[of "''sid-1''" "demo_request (Some ''sid-daisy'') None None" demo_world]
    by simp
qed

subsection \<open>C7: failures of the store\<close>

text \<open>
  C7 as stated fails. It says that in every handler a failure of the store that is not a
  constraint violation gives status 500, POST /register included. The \<^verbatim>\<open>catch\<close> of
  POST /register (lines 167 to 170) answers every error alike with 400: here the store
  cannot be opened, and the response is 400 with the text of the error.
\<close>

theorem register_store_failure_is_400:
  "err_name cannot_open = SequelizeConnectionError \<and>
   fst (POST_register demo_sequelize demo_bcrypt ''NaCl'' ''sid-1''
          (demo_request None (Some (Str ''rose'')) (Some (Str ''thorn'')))
          (demo_world\<lparr>faults := [Some cannot_open]\<rparr>)) =
     Inr (Send 400 (msg_register_error @ '' '' @ message cannot_open)) \<and>
   status (Send 400 (msg_register_error @ '' '' @ message cannot_open)) \<noteq> 500"
  by (simp add: POST_register_unfold register_handler_def Role_findOne_def query_def
      register_catch_def cannot_open_def)

text \<open>
  C7, amended. When a call to the store is rejected with an error, POST /login answers 500
  and POST /register answers 400, the status it also gives a constraint violation; in both
  the message is the prefix of the handler followed by the text of the error. POST /login
  makes its call once the query is built, which every login that is a string allows. For
  POST /register this holds for its first call and, on a store with the role \<open>user\<close>
  and for a login and a password that are strings, for its second.
\<close>

theorem persistence_failure_responses:
  "(faults w = Some e # fs \<and> where_login S (body_login rq) = Inr cond \<longrightarrow>
      fst (POST_login S B new_sid rq w) = Inr (Send 500 (msg_server_error @ '' '' @ message e))) \<and>
   (faults w = Some e # fs \<or>
    faults w = None # Some e # fs \<and> has_role ''user'' w \<and>
      body_login rq = Some (Str lg) \<and> body_password rq = Some (Str pw) \<longrightarrow>
      fst (POST_register S B salt new_sid rq w) =
        Inr (Send 400 (msg_register_error @ '' '' @ message e)))"
proof (intro conjI impI)
  assume "faults w = Some e # fs \<and> where_login S (body_login rq) = Inr cond"
  then show "fst (POST_login S B new_sid rq w) = Inr (Send 500 (msg_server_error @ '' '' @ message e))"
    by (simp add: POST_login_unfold login_handler_def User_findOne_def query_fault login_catch_def)
next
  assume a: "faults w = Some e # fs \<or>
    faults w = None # Some e # fs \<and> has_role ''user'' w \<and>
      body_login rq = Some (Str lg) \<and> body_password rq = Some (Str pw)"
  show "fst (POST_register S B salt new_sid rq w) =
        Inr (Send 400 (msg_register_error @ '' '' @ message e))"
    using a
  proof
    assume "faults w = Some e # fs"
    then show ?thesis
      by (simp add: POST_register_unfold register_handler_def Role_findOne_def query_fault
          register_catch_def)
  next
    assume b: "faults w = None # Some e # fs \<and> has_role ''user'' w \<and>
      body_login rq = Some (Str lg) \<and> body_password rq = Some (Str pw)"
    then obtain rl where rl: "find (\<lambda>r. role_name r = ''user'') (Roles w) = Some rl"
      by (cases "find (\<lambda>r. role_name r = ''user'') (Roles w)")
         (auto simp: has_role_def find_None_iff_key simp del: set_map)
    from b have c: "calls_ok (Suc 0) w" by (simp add: calls_ok_def)
    from b have f: "faults (w\<lparr>faults := tl (faults w)\<rparr>) = Some e # fs" by simp
    from b have fields: "body_login rq = Some (Str lg)" "body_password rq = Some (Str pw)"
      by simp_all
    show ?thesis using rl fields
      by (simp add: POST_register_unfold register_handler_def Role_findOne_ok[OF c]
          User_create_def query_fault[OF f] register_catch_def)
  qed
qed

theorem persistence_failure_responses_witness:
  "faults (demo_world\<lparr>faults := [Some cannot_open]\<rparr>) = Some cannot_open # [] \<and>
   fst (POST_login demo_sequelize demo_bcrypt ''sid-1''
          (demo_request None (Some (Str ''daisy'')) (Some (Str ''tulip'')))
          (demo_world\<lparr>faults := [Some cannot_open]\<rparr>)) =
     Inr (Send 500 (msg_server_error @ '' '' @ message cannot_open)) \<and>
   faults (demo_world\<lparr>faults := [None, Some cannot_open]\<rparr>) = None # Some cannot_open # [] \<and>
   has_role ''user'' (demo_world\<lparr>faults := [None, Some cannot_open]\<rparr>) \<and>
   fst (POST_register demo_sequelize demo_bcrypt ''NaCl'' ''sid-1''
          (demo_request None (Some (Str ''rose'')) (Some (Str ''thorn'')))
          (demo_world\<lparr>faults := [None, Some cannot_open]\<rparr>)) =
     Inr (Send 400 (msg_register_error @ '' '' @ message cannot_open))"
proof -
  let ?rq1 = "demo_request None (Some (Str ''daisy'')) (Some (Str ''tulip''))"
  let ?rq2 = "demo_request None (Some (Str ''rose'')) (Some (Str ''thorn''))"
  have a: "faults (demo_world\<lparr>faults := [Some cannot_open]\<rparr>) = Some cannot_open # []" by simp
  have b: "faults (demo_world\<lparr>faults := [None, Some cannot_open]\<rparr>) = None # Some cannot_open # []"
    by simp
  have c: "has_role ''user'' (demo_world\<lparr>faults := [None, Some cannot_open]\<rparr>)"
    by (simp add: has_role_def demo_world_def)
  have d: "where_login demo_sequelize (body_login ?rq1) = Inr (\<lambda>x. x = ''daisy'')"
    by (simp add: demo_request_def)
  have e: "body_login ?rq2 = Some (Str ''rose'')" "body_password ?rq2 = Some (Str ''thorn'')"
    by (simp_all add: demo_request_def)
  from persistence_failure_responses[where w = "demo_world\<lparr>faults := [Some cannot_open]\<rparr>"
      and e = cannot_open and fs = "[]" and S = demo_sequelize and B = demo_bcrypt
      and new_sid = "''sid-1''" and rq = ?rq1 and cond = "\<lambda>x. x = ''daisy''"] a d
  have "fst (POST_login demo_sequelize demo_bcrypt ''sid-1'' ?rq1
          (demo_world\<lparr>faults := [Some cannot_open]\<rparr>)) =
     Inr (Send 500 (msg_server_error @ '' '' @ message cannot_open))" by blast
  moreover from persistence_failure_responses[where w = "demo_world\<lparr>faults := [None, Some cannot_open]\<rparr>"
      and e = cannot_open and fs = "[]" and S = demo_sequelize and B = demo_bcrypt
      and new_sid = "''sid-1''" and salt = "''NaCl''" and rq = ?rq2
      and lg = "''rose''" and pw = "''thorn''"] b c e
  have "fst (POST_register demo_sequelize demo_bcrypt ''NaCl'' ''sid-1'' ?rq2
          (demo_world\<lparr>faults := [None, Some cannot_open]\<rparr>)) =
     Inr (Send 400 (msg_register_error @ '' '' @ message cannot_open))" by blast
  ultimately show ?thesis using a b c by blast
qed

subsection \<open>C8: running the bootstrap again\<close>

lemma bootstrap_first_stable:
  assumes "calls_ok 5 w"
  shows "Roles (bootstrap B salt' (bootstrap B salt w)) = Roles (bootstrap B salt w) \<and>
         Users (bootstrap B salt' (bootstrap B salt w)) = Users (bootstrap B salt w)"
proof -
  from bootstrap_establishes[OF assms, of B salt]
  have "same_tables (bootstrap B salt w) (bootstrap B salt' (bootstrap B salt w))"
    by (simp add: bootstrap_again)
  then show ?thesis by (simp add: same_tables_def)
qed

text \<open>
  C8. The bootstrap on a store that already holds both roles and at least one user leaves
  the Role and the User table exactly as they are: no row is changed, removed or added,
  whatever happens to its calls. The store a first bootstrap leaves, when none of its five
  calls was rejected from outside, is such a store: its User table is not empty, and a
  second bootstrap leaves both tables as the first one left them.
\<close>

theorem bootstrap_idempotent:
  "(has_role ''user'' w \<and> has_role ''admin'' w \<and> Users w \<noteq> [] \<longrightarrow>
      Roles (bootstrap B salt w) = Roles w \<and> Users (bootstrap B salt w) = Users w) \<and>
   (calls_ok 5 w \<longrightarrow>
      has_role ''user'' (bootstrap B salt w) \<and> has_role ''admin'' (bootstrap B salt w) \<and>
      Users (bootstrap B salt w) \<noteq> [] \<and>
      Roles (bootstrap B salt' (bootstrap B salt w)) = Roles (bootstrap B salt w) \<and>
      Users (bootstrap B salt' (bootstrap B salt w)) = Users (bootstrap B salt w))"
proof (intro conjI impI)
  assume a: "has_role ''user'' w \<and> has_role ''admin'' w \<and> Users w \<noteq> []"
  then have "same_tables w (bootstrap B salt w)" by (simp add: bootstrap_again)
  then show "Roles (bootstrap B salt w) = Roles w" and "Users (bootstrap B salt w) = Users w"
    by (simp_all add: same_tables_def)
next
  assume c: "calls_ok 5 w"
  from bootstrap_establishes[OF c, of B salt]
  show "has_role ''user'' (bootstrap B salt w)" and "has_role ''admin'' (bootstrap B salt w)"
    and "Users (bootstrap B salt w) \<noteq> []" by simp_all
  from bootstrap_first_stable[OF c, of B salt' salt]
  show "Roles (bootstrap B salt' (bootstrap B salt w)) = Roles (bootstrap B salt w)"
    and "Users (bootstrap B salt' (bootstrap B salt w)) = Users (bootstrap B salt w)"
    by simp_all
qed

theorem bootstrap_idempotent_witness:
  "calls_ok 5 fresh_world \<and>
   Users (bootstrap demo_bcrypt ''NaCl'' fresh_world) \<noteq> [] \<and>
   Roles (bootstrap demo_bcrypt ''KCl'' (bootstrap demo_bcrypt ''NaCl'' fresh_world)) =
     Roles (bootstrap demo_bcrypt ''NaCl'' fresh_world) \<and>
   Users (bootstrap demo_bcrypt ''KCl'' (bootstrap demo_bcrypt ''NaCl'' fresh_world)) =
     Users (bootstrap demo_bcrypt ''NaCl'' fresh_world) \<and>
   has_role ''user'' demo_world \<and> has_role ''admin'' demo_world \<and> Users demo_world \<noteq> [] \<and>
   Roles (bootstrap demo_bcrypt ''KCl'' demo_world) = Roles demo_world \<and>
   Users (bootstrap demo_bcrypt ''KCl'' demo_world) = Users demo_world"
proof -
  have a: "calls_ok 5 fresh_world" by (simp add: calls_ok_def fresh_world_def)
  have b: "has_role ''user'' demo_world" "has_role ''admin'' demo_world" "Users demo_world \<noteq> []"
    by (simp_all add: has_role_def demo_world_def)
  from bootstrap_idempotent[of fresh_world demo_bcrypt "''NaCl''" "''KCl''"]
    bootstrap_idempotent[of demo_world demo_bcrypt "''KCl''" "''KCl''"] a b
  show ?thesis by blast
qed

subsection \<open>C9: logging out\<close>

text \<open>
  C9. GET /logout redirects to \<open>/\<close> whatever the session store reports when it is asked
  to destroy the session: an error it reports is printed to the console and changes nothing
  else, and neither table is touched. With the store the program configures, the session
  of the request is gone afterwards, and GET /profile with the same cookie is redirected
  to /login.
\<close>

theorem logout_redirects:
  "fst (GET_logout destroy new_sid rq w) = Inr (Redirect ''/'') \<and>
   Users (snd (GET_logout destroy new_sid rq w)) = Users w \<and>
   Roles (snd (GET_logout destroy new_sid rq w)) = Roles w \<and>
   console (snd (GET_logout destroy new_sid rq w)) =
     console w @ (case fst (destroy (fst (session_load new_sid rq w)) (sessions w)) of
                    None \<Rightarrow> [] | Some e \<Rightarrow> [LogErrorMsg msg_logout_error e]) \<and>
   request_user rq (snd (GET_logout MemoryStore_destroy new_sid rq w)) = None \<and>
   GET_profile new_sid' rq (snd (GET_logout MemoryStore_destroy new_sid rq w)) =
     (Inr (Redirect ''/login''), snd (GET_logout MemoryStore_destroy new_sid rq w))"
proof -
  have a: "fst (GET_logout destroy new_sid rq w) = Inr (Redirect ''/'') \<and>
   Users (snd (GET_logout destroy new_sid rq w)) = Users w \<and>
   Roles (snd (GET_logout destroy new_sid rq w)) = Roles w \<and>
   console (snd (GET_logout destroy new_sid rq w)) =
     console w @ (case fst (destroy (fst (session_load new_sid rq w)) (sessions w)) of
                    None \<Rightarrow> [] | Some e \<Rightarrow> [LogErrorMsg msg_logout_error e])"
    by (simp add: GET_logout_unfold console_log_def split: prod.splits option.splits)
  have b: "request_user rq (snd (GET_logout MemoryStore_destroy new_sid rq w)) = None"
    by (auto simp: GET_logout_unfold MemoryStore_destroy_def request_user_def session_load_def
        split: option.splits)
  then have "GET_profile new_sid' rq (snd (GET_logout MemoryStore_destroy new_sid rq w)) =
     (Inr (Redirect ''/login''), snd (GET_logout MemoryStore_destroy new_sid rq w))"
    by (simp add: GET_profile_unfold)
  with a b show ?thesis by simp
qed

theorem logout_redirects_witness:
  "fst (GET_logout (\<lambda>k ss. (Some cannot_open, ss)) ''sid-1''
          (demo_request (Some ''sid-daisy'') None None) demo_world) = Inr (Redirect ''/'') \<and>
   request_user (demo_request (Some ''sid-daisy'') None None) demo_world \<noteq> None \<and>
   fst (GET_profile ''sid-2'' (demo_request (Some ''sid-daisy'') None None)
          (snd (GET_logout MemoryStore_destroy ''sid-1''
                  (demo_request (Some ''sid-daisy'') None None) demo_world))) =
     Inr (Redirect ''/login'')"
proof -
  have "request_user (demo_request (Some ''sid-daisy'') None None) demo_world \<noteq> None"
    by (simp add: request_user_def demo_request_def demo_world_def)
  with logout_redirects[of "\<lambda>k ss. (Some cannot_open, ss)" "''sid-1''"
      "demo_request (Some ''sid-daisy'') None None" demo_world "''sid-2''"]
    logout_redirects[of MemoryStore_destroy "''sid-1''"
      "demo_request (Some ''sid-daisy'') None None" demo_world "''sid-2''"]
  show ?thesis by simp
qed

subsection \<open>C10: /profile trusts the session\<close>

text \<open>
  C10. GET /profile with a session is answered from the session alone: whatever the two
  tables hold, and even when every call to the store would be rejected, the response is
  200 with the text of line 202 around the login of the session (written out byte by
  byte, as in C6), and no call to the store is made (the list of coming rejections is
  untouched). GET /admin differs: with the user deleted it answers 403.
\<close>

theorem profile_ignores_store:
  assumes "request_user rq w = Some u"
  shows "GET_profile new_sid rq (w\<lparr>Roles := rs, Users := us, faults := fs\<rparr>) =
           (Inr (Send 200
              ([CHR 0xD0, CHR 0x94, CHR 0xD0, CHR 0xBE, CHR 0xD0, CHR 0xB1, CHR 0xD1, CHR 0x80,
                 CHR 0xD0, CHR 0xBE, CHR 0x20, CHR 0xD0, CHR 0xBF, CHR 0xD0, CHR 0xBE, CHR 0xD0,
                 CHR 0xB6, CHR 0xD0, CHR 0xB0, CHR 0xD0, CHR 0xBB, CHR 0xD0, CHR 0xBE, CHR 0xD0,
                 CHR 0xB2, CHR 0xD0, CHR 0xB0, CHR 0xD1, CHR 0x82, CHR 0xD1, CHR 0x8C] @
               '', '' @ su_login u @ ''! <a href='' @ [CHR 0x22] @ ''/logout'' @ [CHR 0x22] @ ''>'' @
               [CHR 0xD0, CHR 0x92, CHR 0xD1, CHR 0x8B, CHR 0xD0, CHR 0xB9, CHR 0xD1, CHR 0x82,
                 CHR 0xD0, CHR 0xB8] @ ''</a>'')),
            w\<lparr>Roles := rs, Users := us, faults := fs\<rparr>) \<and>
         fst (GET_admin new_sid rq (w\<lparr>Users := [], faults := []\<rparr>)) = Inr (Send 403 msg_forbidden)"
proof -
  from assms have "request_user rq (w\<lparr>Roles := rs, Users := us, faults := fs\<rparr>) = Some u"
    by (simp add: request_user_def split: option.splits)
  then have "GET_profile new_sid rq (w\<lparr>Roles := rs, Users := us, faults := fs\<rparr>) =
           (Inr (Send 200
              ([CHR 0xD0, CHR 0x94, CHR 0xD0, CHR 0xBE, CHR 0xD0, CHR 0xB1, CHR 0xD1, CHR 0x80,
                 CHR 0xD0, CHR 0xBE, CHR 0x20, CHR 0xD0, CHR 0xBF, CHR 0xD0, CHR 0xBE, CHR 0xD0,
                 CHR 0xB6, CHR 0xD0, CHR 0xB0, CHR 0xD0, CHR 0xBB, CHR 0xD0, CHR 0xBE, CHR 0xD0,
                 CHR 0xB2, CHR 0xD0, CHR 0xB0, CHR 0xD1, CHR 0x82, CHR 0xD1, CHR 0x8C] @
               '', '' @ su_login u @ ''! <a href='' @ [CHR 0x22] @ ''/logout'' @ [CHR 0x22] @ ''>'' @
               [CHR 0xD0, CHR 0x92, CHR 0xD1, CHR 0x8B, CHR 0xD0, CHR 0xB9, CHR 0xD1, CHR 0x82,
                 CHR 0xD0, CHR 0xB8] @ ''</a>'')),
            w\<lparr>Roles := rs, Users := us, faults := fs\<rparr>)"
    by (simp add: GET_profile_unfold greeting_def logout_link_def msg_welcome_def msg_exit_def)
  moreover from assms have "request_user rq (w\<lparr>Users := [], faults := []\<rparr>) = Some u"
    by (simp add: request_user_def split: option.splits)
  then have "fst (GET_admin new_sid rq (w\<lparr>Users := [], faults := []\<rparr>)) =
      Inr (Send 403 msg_forbidden)"
    by (simp add: GET_admin_unfold User_findByPk_def query_def)
  ultimately show ?thesis by simp
qed

theorem profile_ignores_store_witness:
  "request_user (demo_request (Some ''sid-daisy'') None None) demo_world =
     Some \<lparr>su_id = 2, su_login = ''daisy'', su_role = ''user''\<rparr> \<and>
   fst (GET_profile ''sid-1'' (demo_request (Some ''sid-daisy'') None None)
          (demo_world\<lparr>Roles := [], Users := [], faults := [Some cannot_open]\<rparr>)) =
     Inr (Send 200
        ([CHR 0xD0, CHR 0x94, CHR 0xD0, CHR 0xBE, CHR 0xD0, CHR 0xB1, CHR 0xD1, CHR 0x80,
           CHR 0xD0, CHR 0xBE, CHR 0x20, CHR 0xD0, CHR 0xBF, CHR 0xD0, CHR 0xBE, CHR 0xD0,
           CHR 0xB6, CHR 0xD0, CHR 0xB0, CHR 0xD0, CHR 0xBB, CHR 0xD0, CHR 0xBE, CHR 0xD0,
           CHR 0xB2, CHR 0xD0, CHR 0xB0, CHR 0xD1, CHR 0x82, CHR 0xD1, CHR 0x8C] @
         '', '' @ ''daisy'' @ ''! <a href='' @ [CHR 0x22] @ ''/logout'' @ [CHR 0x22] @ ''>'' @
         [CHR 0xD0, CHR 0x92, CHR 0xD1, CHR 0x8B, CHR 0xD0, CHR 0xB9, CHR 0xD1, CHR 0x82,
           CHR 0xD0, CHR 0xB8] @ ''</a>'')) \<and>
   fst (GET_admin ''sid-1'' (demo_request (Some ''sid-daisy'') None None)
          (demo_world\<lparr>Users := [], faults := []\<rparr>)) = Inr (Send 403 msg_forbidden)"
proof -
  have a: "request_user (demo_request (Some ''sid-daisy'') None None) demo_world =
     Some \<lparr>su_id = 2, su_login = ''daisy'', su_role = ''user''\<rparr>"
    by (simp add: request_user_def demo_request_def demo_world_def)
  from profile_ignores_store[OF a, where new_sid = "''sid-1''" and rs = "[]" and us = "[]"
      and fs = "[Some cannot_open]"] a
  show ?thesis by simp
qed

end
